theory Spec2Isabelle
  imports Complex_Main "HOL-Library.Sublist"
begin

section \<open>Placement reminder bot: data model\<close>

text \<open>
  The bot keeps four MongoDB collections (admins, reminders, blocked users, pending
  deletes), one in-process scheduler and one in-process dictionary of request times.
  A collection is a list of documents in insertion order: \<open>find_one\<close> returns the first
  match, \<open>delete_one\<close> removes the first match, \<open>update_one\<close> with \<open>upsert=True\<close>
  changes the first match or appends a new document.

  Texts sent to Telegram are kept as the fragments of the source's f-strings; the emoji
  that open most of the source's literals are left out of the string literals here.
  Sending never fails in this model: a message handed to the transport is appended to
  the outbox.
\<close>

datatype role = Superadmin | Admin

datatype error =
    IndexError    \<comment> \<open>\<open>context.args[i]\<close> out of range\<close>
  | ValueError    \<comment> \<open>\<open>int(...)\<close> or \<open>strptime\<close> on a malformed string\<close>
  | InvalidId     \<comment> \<open>\<open>ObjectId(rid)\<close> on a string that is not 24 hex digits\<close>
  | TypeError     \<comment> \<open>ordering an offset-naive against an offset-aware datetime\<close>
  | DuplicateKeyError \<comment> \<open>inserting a document whose \<open>_id\<close> is already there\<close>

text \<open>
  A Python \<open>datetime\<close> is offset-naive (a wall-clock reading, \<open>tzinfo\<close> is \<open>None\<close>) or
  offset-aware (an instant); both are counted in microseconds. A \<open>timedelta\<close> is a number
  of microseconds.
\<close>

datatype datetime = Naive int | Aware int

type_synonym timedelta = int

record admin_doc =
  a_user_id :: int
  a_role :: role

record reminder_doc =
  r_id :: string          \<comment> \<open>\<open>str(_id)\<close>: 24 lower-case hex digits\<close>
  r_time :: int           \<comment> \<open>BSON date: the UTC instant\<close>
  r_message :: string
  r_created_by :: int
  r_creator_name :: string
  r_created_at :: int

record block_doc =
  b_user_id :: int
  b_reason :: string
  b_blocked_at :: real

record pending_doc =
  p_rid :: string
  p_requested_by :: int
  p_requested_at :: real

datatype trigger = Date datetime | Interval timedelta

record job =
  job_id :: string
  job_trigger :: trigger
  job_text :: string      \<comment> \<open>the text \<open>send_reminder\<close> will post; empty for \<open>ping_self\<close>\<close>

record tg_user =
  uid :: int
  username :: "string option"

datatype chat = Channel | Chat int

datatype frag = S string | I int | E error | D datetime | Rs "reminder_doc list"
  | As "admin_doc list" | Bs "block_doc list"

type_synonym msg = "frag list"

record bot_state =
  admins :: "admin_doc list"
  reminders :: "reminder_doc list"
  blocked :: "block_doc list"
  pending_deletes :: "pending_doc list"
  jobs :: "job list"                      \<comment> \<open>\<open>scheduler.get_jobs()\<close>\<close>
  user_requests :: "int \<Rightarrow> real list"     \<comment> \<open>\<open>defaultdict(list)\<close>\<close>
  outbox :: "(chat \<times> msg) list"

text \<open>What a handler reads from its surroundings during one call.\<close>

record env =
  time_time :: real        \<comment> \<open>\<open>time.time()\<close>\<close>
  datetime_now :: int      \<comment> \<open>\<open>datetime.now()\<close>, offset-naive\<close>
  datetime_utcnow :: int   \<comment> \<open>\<open>datetime.utcnow()\<close>, offset-naive\<close>
  new_oid :: string        \<comment> \<open>the \<open>_id\<close> the driver mints for an insert\<close>
  superadmin_id :: int     \<comment> \<open>\<open>SUPERADMIN_ID\<close>\<close>

subsection \<open>Collection primitives\<close>

fun delete_one :: "('a \<Rightarrow> bool) \<Rightarrow> 'a list \<Rightarrow> 'a list" where
  "delete_one P [] = []"
| "delete_one P (x # xs) = (if P x then xs else x # delete_one P xs)"

fun update_first :: "('a \<Rightarrow> bool) \<Rightarrow> ('a \<Rightarrow> 'a) \<Rightarrow> 'a list \<Rightarrow> 'a list" where
  "update_first P f [] = []"
| "update_first P f (x # xs) = (if P x then f x # xs else x # update_first P f xs)"

definition upsert_one :: "('a \<Rightarrow> bool) \<Rightarrow> ('a \<Rightarrow> 'a) \<Rightarrow> 'a \<Rightarrow> 'a list \<Rightarrow> 'a list" where
  "upsert_one P f new xs = (if find P xs = None then xs @ [new] else update_first P f xs)"

definition send_message :: "chat \<Rightarrow> msg \<Rightarrow> bot_state \<Rightarrow> bot_state" where
  "send_message c t s = s\<lparr>outbox := outbox s @ [(c, t)]\<rparr>"

definition reply_text :: "tg_user \<Rightarrow> msg \<Rightarrow> bot_state \<Rightarrow> bot_state" where
  "reply_text u t s = send_message (Chat (uid u)) t s"

section \<open>Helpers\<close>

definition is_superadmin :: "int \<Rightarrow> bot_state \<Rightarrow> bool" where
  "is_superadmin user_id s =
     (find (\<lambda>a. a_user_id a = user_id \<and> a_role a = Superadmin) (admins s) \<noteq> None)"

definition is_admin_or_superadmin :: "int \<Rightarrow> bot_state \<Rightarrow> bool" where
  "is_admin_or_superadmin user_id s = (find (\<lambda>a. a_user_id a = user_id) (admins s) \<noteq> None)"

section \<open>Spam protection\<close>

definition REQUEST_LIMIT :: nat where
  "REQUEST_LIMIT = 5"

definition TIME_WINDOW :: real where
  "TIME_WINDOW = 10"

definition is_blocked :: "int \<Rightarrow> bot_state \<Rightarrow> bool" where
  "is_blocked user_id s = (find (\<lambda>b. b_user_id b = user_id) (blocked s) \<noteq> None)"

text \<open>
  \<open>block_user(user_id, reason="Spam detected")\<close>; \<open>t\<close> is the reading of \<open>time.time()\<close>
  stored as \<open>blocked_at\<close>.
\<close>

definition block_user :: "int \<Rightarrow> string \<Rightarrow> real \<Rightarrow> bot_state \<Rightarrow> bot_state" where
  "block_user user_id reason t s =
     s\<lparr>blocked := upsert_one (\<lambda>b. b_user_id b = user_id)
          (\<lambda>b. b\<lparr>b_reason := reason, b_blocked_at := t\<rparr>)
          \<lparr>b_user_id = user_id, b_reason = reason, b_blocked_at = t\<rparr> (blocked s)\<rparr>"

definition unblock_user :: "int \<Rightarrow> bot_state \<Rightarrow> bot_state" where
  "unblock_user user_id s = s\<lparr>blocked := delete_one (\<lambda>b. b_user_id b = user_id) (blocked s)\<rparr>"

text \<open>
  \<open>rate_limit\<close> reads the clock once; \<open>block_user\<close>, called without a reason, stores the
  default reason and reads the clock again (taken to be the same reading).
\<close>

definition rate_limit :: "real \<Rightarrow> int \<Rightarrow> bot_state \<Rightarrow> bool \<times> bot_state" where
  "rate_limit now user_id s =
     (let kept = filter (\<lambda>t. now - t < TIME_WINDOW) (user_requests s user_id);
          s1 = s\<lparr>user_requests := (user_requests s)(user_id := kept @ [now])\<rparr>
      in if length (user_requests s1 user_id) > REQUEST_LIMIT
         then (False, block_user user_id ''Spam detected'' now s1)
         else (True, s1))"

definition msg_blocked :: msg where
  "msg_blocked = [S ''You are blocked. Contact the superadmin to be unblocked.'']"

definition msg_spam :: msg where
  "msg_spam = [S ''You have been blocked for spamming. Contact the superadmin.'']"

definition check_spam :: "env \<Rightarrow> tg_user \<Rightarrow> bot_state \<Rightarrow> bool \<times> bot_state" where
  "check_spam e u s =
     (let user_id = uid u in
      if is_admin_or_superadmin user_id s then (True, s)
      else if is_blocked user_id s then (False, reply_text u msg_blocked s)
      else (case rate_limit (time_time e) user_id s of
              (False, s1) \<Rightarrow> (False, reply_text u msg_spam s1)
            | (True, s1) \<Rightarrow> (True, s1)))"

text \<open>A caller's successive requests: \<open>check_spam\<close> at each clock reading in turn.\<close>

fun check_spam_seq :: "env \<Rightarrow> real list \<Rightarrow> tg_user \<Rightarrow> bot_state \<Rightarrow> bool list \<times> bot_state" where
  "check_spam_seq e [] u s = ([], s)"
| "check_spam_seq e (t # ts) u s =
     (case check_spam (e\<lparr>time_time := t\<rparr>) u s of
        (ok, s1) \<Rightarrow> (case check_spam_seq e ts u s1 of (oks, s2) \<Rightarrow> (ok # oks, s2)))"

section \<open>Library functions the source calls\<close>

text \<open>\<open>str(n)\<close> for an integer: its decimal digits.\<close>

definition digit_char :: "nat \<Rightarrow> char" where
  "digit_char d = ''0123456789'' ! d"

fun str_nat :: "nat \<Rightarrow> string" where
  "str_nat n = (if n < 10 then [digit_char n] else str_nat (n div 10) @ [digit_char (n mod 10)])"

declare str_nat.simps [simp del]

definition str_int :: "int \<Rightarrow> string" where
  "str_int i = (if i < 0 then CHR ''-'' # str_nat (nat (- i)) else str_nat (nat i))"

text \<open>\<open>sep.join(xs)\<close>\<close>

fun join :: "string \<Rightarrow> string list \<Rightarrow> string" where
  "join sep [] = []"
| "join sep [x] = x"
| "join sep (x # y # ys) = x @ sep @ join sep (y # ys)"

text \<open>
  \<open>int(s)\<close> on a string of ASCII characters: an optional sign, then decimal digits, where
  single underscores may stand between digits. Anything else raises \<open>ValueError\<close>.
  (Arguments come from splitting the message at whitespace, so they hold none.)
\<close>

definition is_digit :: "char \<Rightarrow> bool" where
  "is_digit c = (c \<in> set ''0123456789'')"

definition digit_val :: "char \<Rightarrow> nat" where
  "digit_val c = of_char c - (48::nat)"

fun parse_digits :: "nat \<Rightarrow> string \<Rightarrow> nat option" where
  "parse_digits acc [] = Some acc"
| "parse_digits acc (c # cs) =
     (if is_digit c then parse_digits (10 * acc + digit_val c) cs
      else if c = CHR ''_'' then (case cs of [] \<Rightarrow> None
             | d # _ \<Rightarrow> if is_digit d then parse_digits acc cs else None)
      else None)"

definition py_nat :: "string \<Rightarrow> nat option" where
  "py_nat s = (case s of [] \<Rightarrow> None | c # _ \<Rightarrow> if is_digit c then parse_digits 0 s else None)"

definition py_int :: "string \<Rightarrow> error + int" where
  "py_int s =
     (case s of
        [] \<Rightarrow> Inl ValueError
      | c # cs \<Rightarrow>
          if c = CHR ''-'' then (case py_nat cs of None \<Rightarrow> Inl ValueError | Some n \<Rightarrow> Inr (- int n))
          else if c = CHR ''+'' then (case py_nat cs of None \<Rightarrow> Inl ValueError | Some n \<Rightarrow> Inr (int n))
          else (case py_nat s of None \<Rightarrow> Inl ValueError | Some n \<Rightarrow> Inr (int n)))"

text \<open>
  \<open>ObjectId(s)\<close> on a string: \<open>s\<close> must be 24 hexadecimal digits, of either case, and
  \<open>str\<close> of the result prints them in lower case. An \<open>ObjectId\<close> is kept as that
  lower-case string.
\<close>

definition is_hex :: "char \<Rightarrow> bool" where
  "is_hex c = (c \<in> set ''0123456789abcdefABCDEF'')"

definition lower_hex :: "char \<Rightarrow> char" where
  "lower_hex c =
     (if c = CHR ''A'' then CHR ''a'' else if c = CHR ''B'' then CHR ''b''
      else if c = CHR ''C'' then CHR ''c'' else if c = CHR ''D'' then CHR ''d''
      else if c = CHR ''E'' then CHR ''e'' else if c = CHR ''F'' then CHR ''f'' else c)"

definition ObjectId :: "string \<Rightarrow> error + string" where
  "ObjectId s = (if length s = 24 \<and> list_all is_hex s then Inr (map lower_hex s) else Inl InvalidId)"

text \<open>
  \<open>d - delta\<close> keeps the kind of \<open>d\<close>. An order comparison of two datetimes of the same
  kind compares the numbers; of different kinds it raises \<open>TypeError\<close>.
\<close>

fun dt_minus :: "datetime \<Rightarrow> timedelta \<Rightarrow> datetime" where
  "dt_minus (Naive t) d = Naive (t - d)"
| "dt_minus (Aware t) d = Aware (t - d)"

fun dt_gt :: "datetime \<Rightarrow> datetime \<Rightarrow> error + bool" where
  "dt_gt (Naive a) (Naive b) = Inr (a > b)"
| "dt_gt (Aware a) (Aware b) = Inr (a > b)"
| "dt_gt (Naive a) (Aware b) = Inl TypeError"
| "dt_gt (Aware a) (Naive b) = Inl TypeError"

definition hours :: "int \<Rightarrow> timedelta" where
  "hours n = n * 3600000000"

definition minutes :: "int \<Rightarrow> timedelta" where
  "minutes n = n * 60000000"

section \<open>Reminder helpers\<close>

definition get_intervals :: "(timedelta \<times> string) list" where
  "get_intervals =
     [(hours 2, ''Reminder in 2 hours:''),
      (hours 1, ''Reminder in 1 hour:''),
      (minutes 30, ''Reminder in 30 minutes:''),
      (minutes 15, ''Reminder in 15 minutes:''),
      (0, ''It's time!'')]"

text \<open>
  The scheduler holds one job per id. \<open>remove_job\<close> takes the job with that id out and
  raises when there is none, which the source swallows; \<open>add_job\<close> puts a job in.
\<close>

definition remove_job :: "string \<Rightarrow> job list \<Rightarrow> job list" where
  "remove_job jid js = filter (\<lambda>j. job_id j \<noteq> jid) js"

definition add_job :: "job \<Rightarrow> job list \<Rightarrow> job list" where
  "add_job j js = js @ [j]"

definition make_job_id :: "string \<Rightarrow> nat \<Rightarrow> string" where
  "make_job_id reminder_id i = reminder_id @ ''_'' @ str_nat i"

text \<open>
  The loop of \<open>schedule_reminder_jobs\<close> over \<open>enumerate(_get_intervals())\<close>; the list
  argument holds the entries still to visit, each with its index. The result is the
  exception that ended the loop, if any, and the scheduler's jobs at that moment.
\<close>

fun schedule_loop ::
  "datetime \<Rightarrow> string \<Rightarrow> datetime \<Rightarrow> string \<Rightarrow> (nat \<times> timedelta \<times> string) list \<Rightarrow> job list
     \<Rightarrow> error option \<times> job list" where
  "schedule_loop now reminder_id reminder_time message [] js = (None, js)"
| "schedule_loop now reminder_id reminder_time message ((i, offset, pre) # rest) js =
     (let run_time = dt_minus reminder_time offset in
      case dt_gt run_time now of
        Inl err \<Rightarrow> (Some err, js)
      | Inr True \<Rightarrow>
          (let jid = make_job_id reminder_id i;
               js1 = remove_job jid js;
               js2 = add_job \<lparr>job_id = jid, job_trigger = Date run_time,
                               job_text = pre @ '' '' @ message\<rparr> js1
           in schedule_loop now reminder_id reminder_time message rest js2)
      | Inr False \<Rightarrow> schedule_loop now reminder_id reminder_time message rest js)"

definition schedule_reminder_jobs ::
  "env \<Rightarrow> string \<Rightarrow> datetime \<Rightarrow> string \<Rightarrow> bot_state \<Rightarrow> error option \<times> bot_state" where
  "schedule_reminder_jobs e reminder_id reminder_time message s =
     (let now = Naive (datetime_now e) in
      case schedule_loop now reminder_id reminder_time message
             (zip [0 ..< length get_intervals] get_intervals) (jobs s) of
        (err, js) \<Rightarrow> (err, s\<lparr>jobs := js\<rparr>))"

definition remove_reminder_jobs :: "string \<Rightarrow> bot_state \<Rightarrow> bot_state" where
  "remove_reminder_jobs reminder_id s =
     s\<lparr>jobs := filter (\<lambda>j. \<not> prefix (reminder_id @ ''_'') (job_id j)) (jobs s)\<rparr>"

section \<open>Bot commands\<close>

text \<open>
  A handler gets the environment, the calling user (\<open>update.effective_user\<close>), the
  arguments (\<open>context.args\<close>) and the state. It returns the exception that escaped it, if
  any, and the state it left. A handler that returns early returns \<open>None\<close>.
\<close>

type_synonym handler = "env \<Rightarrow> tg_user \<Rightarrow> string list \<Rightarrow> bot_state \<Rightarrow> error option \<times> bot_state"

definition format_user :: "tg_user \<Rightarrow> string" where
  "format_user u =
     (case username u of
        Some n \<Rightarrow> if n \<noteq> [] then CHR ''@'' # n else str_int (uid u)
      | None \<Rightarrow> str_int (uid u))"

text \<open>Statements that run one after the other, each on the state the one before left.\<close>

definition run_steps :: "(bot_state \<Rightarrow> bot_state) list \<Rightarrow> bot_state \<Rightarrow> bot_state" where
  "run_steps fs s = fold (\<lambda>f x. f x) fs s"

definition start :: handler where
  "start e u args s =
     (case check_spam e u s of
        (False, s1) \<Rightarrow> (None, s1)
      | (True, s1) \<Rightarrow> (None, reply_text u
          [S ''Hi! I'm your reminder bot.\<newline>Use /remind to set reminders.\<newline>Ping me with /ping to test uptime.''] s1))"

definition ping :: handler where
  "ping e u args s = (None, reply_text u [S ''pong''] s)"

subsection \<open>Admin management\<close>

definition add_admin :: handler where
  "add_admin e u args s =
     (case check_spam e u s of
        (False, s1) \<Rightarrow> (None, s1)
      | (True, s1) \<Rightarrow>
          if \<not> is_superadmin (uid u) s1
          then (None, reply_text u [S ''Only superadmin can add admins.''] s1)
          else (case (case args of [] \<Rightarrow> Inl IndexError | a # _ \<Rightarrow> py_int a) of
                  Inl err \<Rightarrow> (None, reply_text u [S ''Usage: /addadmin <user_id>\<newline>Error: '', E err] s1)
                | Inr user_id \<Rightarrow>
                    if find (\<lambda>a. a_user_id a = user_id) (admins s1) = None
                    then (None, reply_text u [S ''Added '', I user_id, S '' as admin.'']
                            (s1\<lparr>admins := admins s1 @ [\<lparr>a_user_id = user_id, a_role = Admin\<rparr>]\<rparr>))
                    else (None, reply_text u [S ''That user is already an admin.''] s1)))"

definition remove_admin :: handler where
  "remove_admin e u args s =
     (case check_spam e u s of
        (False, s1) \<Rightarrow> (None, s1)
      | (True, s1) \<Rightarrow>
          if \<not> is_superadmin (uid u) s1
          then (None, reply_text u [S ''Only superadmin can remove admins.''] s1)
          else (case (case args of [] \<Rightarrow> Inl IndexError | a # _ \<Rightarrow> py_int a) of
                  Inl err \<Rightarrow> (None, reply_text u [S ''Usage: /removeadmin <user_id>\<newline>Error: '', E err] s1)
                | Inr user_id \<Rightarrow>
                    (let P = (\<lambda>a. a_user_id a = user_id \<and> a_role a = Admin);
                         deleted = (find P (admins s1) \<noteq> None);
                         s2 = s1\<lparr>admins := delete_one P (admins s1)\<rparr>
                     in if deleted
                        then (None, reply_text u [S ''Removed '', I user_id, S '' from admins.''] s2)
                        else (None, reply_text u [S ''User is not an admin.''] s2))))"

definition list_admins :: handler where
  "list_admins e u args s =
     (case check_spam e u s of
        (False, s1) \<Rightarrow> (None, s1)
      | (True, s1) \<Rightarrow>
          if \<not> is_superadmin (uid u) s1
          then (None, reply_text u [S ''Only superadmin can list admins.''] s1)
          else (None, reply_text u [S ''Admins:\<newline>'', As (admins s1)] s1))"

subsection \<open>Blocking\<close>

definition unblock_cmd :: handler where
  "unblock_cmd e u args s =
     (case check_spam e u s of
        (False, s1) \<Rightarrow> (None, s1)
      | (True, s1) \<Rightarrow>
          if \<not> is_superadmin (uid u) s1
          then (None, reply_text u [S ''Only superadmin can unblock users.''] s1)
          else (case (case args of [] \<Rightarrow> Inl IndexError | a # _ \<Rightarrow> py_int a) of
                  Inl err \<Rightarrow> (None, reply_text u [S ''Usage: /unblock <user_id>\<newline>Error: '', E err] s1)
                | Inr user_id \<Rightarrow>
                    if is_blocked user_id s1
                    then (None, reply_text u [S ''User '', I user_id, S '' has been unblocked.'']
                            (unblock_user user_id s1))
                    else (None, reply_text u [S ''That user is not blocked.''] s1)))"

text \<open>\<open>users.count()\<close> is the number of documents in the collection (PyMongo 3).\<close>

definition list_blocked :: handler where
  "list_blocked e u args s =
     (case check_spam e u s of
        (False, s1) \<Rightarrow> (None, s1)
      | (True, s1) \<Rightarrow>
          if \<not> is_superadmin (uid u) s1
          then (None, reply_text u [S ''Only superadmin can list blocked users.''] s1)
          else if length (blocked s1) = 0
          then (None, reply_text u [S ''No users are currently blocked.''] s1)
          else (None, reply_text u [S ''Blocked Users:\<newline>'', Bs (blocked s1)] s1))"

subsection \<open>Broadcasting\<close>

definition broadcast :: handler where
  "broadcast e u args s =
     (case check_spam e u s of
        (False, s1) \<Rightarrow> (None, s1)
      | (True, s1) \<Rightarrow>
          if \<not> is_superadmin (uid u) s1
          then (None, reply_text u [S ''Only superadmin can broadcast messages.''] s1)
          else (let message = join '' '' args in
                if message = [] then (None, reply_text u [S ''Usage: /broadcast <message>''] s1)
                else (None, reply_text u [S ''Message broadcasted to the channel.'']
                        (send_message Channel [S message] s1))))"

subsection \<open>Reminder management\<close>

text \<open>
  \<open>Asia/Kolkata\<close> is five and a half hours ahead of UTC. \<open>strptime\<close>, the parser of
  \<open>"%Y-%m-%d %H:%M"\<close>, is a parameter: it yields the offset-naive reading in
  microseconds or raises \<open>ValueError\<close>. \<open>replace(tzinfo=...)\<close> makes the reading
  offset-aware, and \<open>astimezone()\<close> keeps the instant and the awareness.
\<close>

definition IST_OFFSET :: timedelta where
  "IST_OFFSET = hours 5 + minutes 30"

text \<open>The body of the \<open>try\<close> block of \<open>remind\<close>; an error here is one the \<open>except\<close> catches.\<close>

definition remind_try ::
  "(string \<Rightarrow> error + int) \<Rightarrow> env \<Rightarrow> tg_user \<Rightarrow> string list \<Rightarrow> bot_state
     \<Rightarrow> error option \<times> bot_state" where
  "remind_try strptime e u args s =
     (if length args < 2 then (Some IndexError, s)
      else case strptime (args ! 0 @ '' '' @ args ! 1) of
        Inl err \<Rightarrow> (Some err, s)
      | Inr naive_time \<Rightarrow>
          (let reminder_time = Aware (naive_time - IST_OFFSET);
               server_time = reminder_time;
               message = join '' '' (drop 2 args)
           in if message = [] then (None, reply_text u [S ''Reminder message cannot be empty.''] s)
              else
                (let user_fmt = format_user u;
                     rid = new_oid e
                 in if find (\<lambda>r. r_id r = rid) (reminders s) \<noteq> None
                    then (Some DuplicateKeyError, s)
                    else
                      (let s1 = s\<lparr>reminders := reminders s @
                                  [\<lparr>r_id = rid, r_time = naive_time - IST_OFFSET,
                                    r_message = message, r_created_by = uid u,
                                    r_creator_name = user_fmt,
                                    r_created_at = datetime_utcnow e\<rparr>]\<rparr>
                       in case schedule_reminder_jobs e rid server_time message s1 of
                            (Some err, s2) \<Rightarrow> (Some err, s2)
                          | (None, s2) \<Rightarrow>
                              (None, run_steps
                                 [reply_text u [S ''Reminder set (ID: `'', S rid, S ''`)\<newline>'',
                                    D reminder_time, S ''\<newline>'', S message,
                                    S ''\<newline>Created by '', S user_fmt],
                                  send_message Channel [S ''New reminder!\<newline>`'', S rid,
                                    S ''`\<newline>'', D reminder_time, S ''\<newline>'', S message,
                                    S ''\<newline>'', S user_fmt]] s2)))))"

definition remind :: "(string \<Rightarrow> error + int) \<Rightarrow> handler" where
  "remind strptime e u args s =
     (case check_spam e u s of
        (False, s1) \<Rightarrow> (None, s1)
      | (True, s1) \<Rightarrow>
          if \<not> is_admin_or_superadmin (uid u) s1
          then (None, reply_text u [S ''You are not an admin.''] s1)
          else (case remind_try strptime e u args s1 of
                  (Some err, s2) \<Rightarrow>
                    (None, reply_text u
                       [S ''Usage: /remind YYYY-MM-DD HH:MM message\<newline>Error: '', E err] s2)
                | (None, s2) \<Rightarrow> (None, s2)))"

text \<open>
  \<open>list_reminders\<close> replies with the reminders in ascending order of time; the
  rendering of the lines and its cut at 3900 characters are left to the fragment \<open>Rs\<close>.
\<close>

definition list_reminders :: handler where
  "list_reminders e u args s =
     (case check_spam e u s of
        (False, s1) \<Rightarrow> (None, s1)
      | (True, s1) \<Rightarrow> (None, reply_text u [Rs (sort_key r_time (reminders s1))] s1))"

subsection \<open>Delete, approve, reject\<close>

definition reminders_delete_one :: "string \<Rightarrow> bot_state \<Rightarrow> bot_state" where
  "reminders_delete_one oid s = s\<lparr>reminders := delete_one (\<lambda>r. r_id r = oid) (reminders s)\<rparr>"

definition pending_delete_one :: "string \<Rightarrow> bot_state \<Rightarrow> bot_state" where
  "pending_delete_one rid s =
     s\<lparr>pending_deletes := delete_one (\<lambda>p. p_rid p = rid) (pending_deletes s)\<rparr>"

definition pending_upsert :: "string \<Rightarrow> int \<Rightarrow> real \<Rightarrow> bot_state \<Rightarrow> bot_state" where
  "pending_upsert rid user_id t s =
     s\<lparr>pending_deletes := upsert_one (\<lambda>p. p_rid p = rid)
          (\<lambda>p. p\<lparr>p_requested_by := user_id, p_requested_at := t\<rparr>)
          \<lparr>p_rid = rid, p_requested_by = user_id, p_requested_at = t\<rparr> (pending_deletes s)\<rparr>"

text \<open>
  The statements of the superadmin branch of \<open>delete_reminder\<close>, in the order of the
  source: \<open>rid\<close> is the argument as typed, \<open>oid\<close> is \<open>ObjectId(rid)\<close>.
\<close>

definition delete_steps :: "tg_user \<Rightarrow> string \<Rightarrow> string \<Rightarrow> (bot_state \<Rightarrow> bot_state) list" where
  "delete_steps u rid oid =
     [reminders_delete_one oid,
      remove_reminder_jobs rid,
      reply_text u [S ''Reminder '', S rid, S '' deleted.'']]"

definition request_steps :: "env \<Rightarrow> string \<Rightarrow> int \<Rightarrow> tg_user \<Rightarrow> (bot_state \<Rightarrow> bot_state) list" where
  "request_steps e rid user_id u =
     [pending_upsert rid user_id (time_time e),
      reply_text u [S ''Deletion request sent to superadmin.''],
      send_message (Chat (superadmin_id e))
        [S ''Admin '', I user_id, S '' requested deletion of reminder `'', S rid,
         S ''`.\<newline>Use /approve '', S rid, S '' or /reject '', S rid, S ''.'']]"

text \<open>The body of the \<open>try\<close> block of \<open>delete_reminder\<close>.\<close>

definition delete_reminder_try ::
  "env \<Rightarrow> tg_user \<Rightarrow> string list \<Rightarrow> bot_state \<Rightarrow> error option \<times> bot_state" where
  "delete_reminder_try e u args s =
     (case args of
        [] \<Rightarrow> (Some IndexError, s)
      | rid # _ \<Rightarrow>
          (case ObjectId rid of
             Inl err \<Rightarrow> (Some err, s)
           | Inr oid \<Rightarrow>
               if find (\<lambda>r. r_id r = oid) (reminders s) = None
               then (None, reply_text u [S ''Reminder not found.''] s)
               else (let user_id = uid u in
                     if is_superadmin user_id s then (None, run_steps (delete_steps u rid oid) s)
                     else if is_admin_or_superadmin user_id s
                     then (None, run_steps (request_steps e rid user_id u) s)
                     else (None, s))))"

definition delete_reminder :: handler where
  "delete_reminder e u args s =
     (case check_spam e u s of
        (False, s1) \<Rightarrow> (None, s1)
      | (True, s1) \<Rightarrow>
          (case delete_reminder_try e u args s1 of
             (Some err, s2) \<Rightarrow>
               (None, reply_text u [S ''Usage: /deletereminder <id>\<newline>Error: '', E err] s2)
           | (None, s2) \<Rightarrow> (None, s2)))"

text \<open>The statements of \<open>approve_delete\<close> after the pending request \<open>req\<close> was found.\<close>

definition approve_steps ::
  "tg_user \<Rightarrow> string \<Rightarrow> string \<Rightarrow> int \<Rightarrow> (bot_state \<Rightarrow> bot_state) list" where
  "approve_steps u rid oid requester =
     [reminders_delete_one oid,
      remove_reminder_jobs rid,
      pending_delete_one rid,
      reply_text u [S ''Reminder '', S rid, S '' deleted after approval.''],
      send_message (Chat requester)
        [S ''Your deletion request for '', S rid, S '' was approved.'']]"

definition approve_delete :: handler where
  "approve_delete e u args s =
     (case check_spam e u s of
        (False, s1) \<Rightarrow> (None, s1)
      | (True, s1) \<Rightarrow>
          if \<not> is_superadmin (uid u) s1 then (None, s1)
          else (case args of
                  [] \<Rightarrow> (Some IndexError, s1)
                | rid # _ \<Rightarrow>
                    (case find (\<lambda>p. p_rid p = rid) (pending_deletes s1) of
                       None \<Rightarrow> (None, reply_text u [S ''No pending request.''] s1)
                     | Some req \<Rightarrow>
                         (case ObjectId rid of
                            Inl err \<Rightarrow> (Some err, s1)
                          | Inr oid \<Rightarrow>
                              (None, run_steps
                                 (approve_steps u rid oid (p_requested_by req)) s1)))))"

definition reject_steps :: "tg_user \<Rightarrow> string \<Rightarrow> int \<Rightarrow> (bot_state \<Rightarrow> bot_state) list" where
  "reject_steps u rid requester =
     [pending_delete_one rid,
      reply_text u [S ''Deletion of '', S rid, S '' rejected.''],
      send_message (Chat requester)
        [S ''Your deletion request for '', S rid, S '' was rejected.'']]"

definition reject_delete :: handler where
  "reject_delete e u args s =
     (case check_spam e u s of
        (False, s1) \<Rightarrow> (None, s1)
      | (True, s1) \<Rightarrow>
          if \<not> is_superadmin (uid u) s1 then (None, s1)
          else (case args of
                  [] \<Rightarrow> (Some IndexError, s1)
                | rid # _ \<Rightarrow>
                    (case find (\<lambda>p. p_rid p = rid) (pending_deletes s1) of
                       None \<Rightarrow> (None, reply_text u [S ''No pending request.''] s1)
                     | Some req \<Rightarrow>
                         (None, run_steps (reject_steps u rid (p_requested_by req)) s1))))"

section \<open>Start-up and dispatch\<close>

definition ping_self_job :: job where
  "ping_self_job = \<lparr>job_id = ''ping_self_job'', job_trigger = Interval (minutes 2), job_text = []\<rparr>"

text \<open>
  The module's top level, run on the collections a previous run left (\<open>db\<close>): a new
  scheduler, the superadmin inserted if no superadmin document exists, an empty
  \<open>user_requests\<close>, the \<open>ping_self\<close> job.
\<close>

definition startup :: "env \<Rightarrow> bot_state \<Rightarrow> bot_state" where
  "startup e db =
     (let s0 = db\<lparr>jobs := [], user_requests := (\<lambda>_. [])\<rparr>;
          s1 = (if find (\<lambda>a. a_role a = Superadmin) (admins s0) = None
                then s0\<lparr>admins := admins s0 @
                        [\<lparr>a_user_id = superadmin_id e, a_role = Superadmin\<rparr>]\<rparr>
                else s0)
      in s1\<lparr>jobs := add_job ping_self_job (jobs s1)\<rparr>)"

text \<open>
  \<open>reload_reminders\<close>: the driver hands stored times back offset-naive, and reads the
  offset-naive \<open>now\<close> of the filter as a UTC instant.
\<close>

fun reload_loop :: "env \<Rightarrow> reminder_doc list \<Rightarrow> bot_state \<Rightarrow> error option \<times> bot_state" where
  "reload_loop e [] s = (None, s)"
| "reload_loop e (r # rs) s =
     (case schedule_reminder_jobs e (r_id r) (Naive (r_time r)) (r_message r) s of
        (Some err, s1) \<Rightarrow> (Some err, s1)
      | (None, s1) \<Rightarrow> reload_loop e rs s1)"

definition reload_reminders :: "env \<Rightarrow> bot_state \<Rightarrow> error option \<times> bot_state" where
  "reload_reminders e s =
     reload_loop e (filter (\<lambda>r. r_time r \<ge> datetime_now e) (reminders s)) s"

definition main :: "env \<Rightarrow> bot_state \<Rightarrow> error option \<times> bot_state" where
  "main e db = reload_reminders e (startup e db)"

definition empty_db :: bot_state where
  "empty_db = \<lparr>admins = [], reminders = [], blocked = [], pending_deletes = [], jobs = [],
               user_requests = (\<lambda>_. []), outbox = []\<rparr>"

datatype command = Start | Ping | Remind | ListReminders | DeleteReminder | Approve | Reject
  | AddAdmin | RemoveAdmin | ListAdmins | Broadcast | Unblock | ListBlocked

text \<open>The table of \<open>CommandHandler\<close>s that \<open>main\<close> registers.\<close>

fun handle :: "(string \<Rightarrow> error + int) \<Rightarrow> command \<Rightarrow> handler" where
  "handle strptime Start = start"
| "handle strptime Ping = ping"
| "handle strptime Remind = remind strptime"
| "handle strptime ListReminders = list_reminders"
| "handle strptime DeleteReminder = delete_reminder"
| "handle strptime Approve = approve_delete"
| "handle strptime Reject = reject_delete"
| "handle strptime AddAdmin = add_admin"
| "handle strptime RemoveAdmin = remove_admin"
| "handle strptime ListAdmins = list_admins"
| "handle strptime Broadcast = broadcast"
| "handle strptime Unblock = unblock_cmd"
| "handle strptime ListBlocked = list_blocked"

text \<open>
  What happens to the bot: a command arrives, or the process is restarted. An exception
  that escapes a handler is logged by the dispatcher and the bot goes on.
\<close>

datatype event = Command command env tg_user "string list" | Restart env

fun step :: "(string \<Rightarrow> error + int) \<Rightarrow> event \<Rightarrow> bot_state \<Rightarrow> bot_state" where
  "step strptime (Command c e u args) s = snd (handle strptime c e u args s)"
| "step strptime (Restart e) s = snd (main e s)"

fun run :: "(string \<Rightarrow> error + int) \<Rightarrow> event list \<Rightarrow> bot_state \<Rightarrow> bot_state" where
  "run strptime [] s = s"
| "run strptime (ev # evs) s = run strptime evs (step strptime ev s)"

section \<open>A scenario\<close>

text \<open>
  One superadmin (user 1), one admin (user 2), a blocked user (9) and an ordinary user
  (7). One reminder, a hundred hours ahead, with its five timers and a pending request of
  the admin to delete it.
\<close>

definition ex_env :: env where
  "ex_env = \<lparr>time_time = 100, datetime_now = 0, datetime_utcnow = 0,
             new_oid = ''65a1b2c3d4e5f60718293a4c'', superadmin_id = 1\<rparr>"

definition ex_rid :: string where
  "ex_rid = ''65a1b2c3d4e5f60718293a4b''"

definition ex_super :: tg_user where
  "ex_super = \<lparr>uid = 1, username = Some ''boss''\<rparr>"

definition ex_admin :: tg_user where
  "ex_admin = \<lparr>uid = 2, username = None\<rparr>"

definition ex_guest :: tg_user where
  "ex_guest = \<lparr>uid = 7, username = None\<rparr>"

definition ex_blocked :: tg_user where
  "ex_blocked = \<lparr>uid = 9, username = None\<rparr>"

definition ex_jobs :: "job list" where
  "ex_jobs =
     [ping_self_job,
      \<lparr>job_id = ex_rid @ ''_0'', job_trigger = Date (Naive (hours 98)),
       job_text = ''Reminder in 2 hours: Submit resume''\<rparr>,
      \<lparr>job_id = ex_rid @ ''_1'', job_trigger = Date (Naive (hours 99)),
       job_text = ''Reminder in 1 hour: Submit resume''\<rparr>,
      \<lparr>job_id = ex_rid @ ''_2'', job_trigger = Date (Naive (hours 100 - minutes 30)),
       job_text = ''Reminder in 30 minutes: Submit resume''\<rparr>,
      \<lparr>job_id = ex_rid @ ''_3'', job_trigger = Date (Naive (hours 100 - minutes 15)),
       job_text = ''Reminder in 15 minutes: Submit resume''\<rparr>,
      \<lparr>job_id = ex_rid @ ''_4'', job_trigger = Date (Naive (hours 100)),
       job_text = ''It's time! Submit resume''\<rparr>]"

definition ex_state :: bot_state where
  "ex_state =
     \<lparr>admins = [\<lparr>a_user_id = 1, a_role = Superadmin\<rparr>, \<lparr>a_user_id = 2, a_role = Admin\<rparr>],
      reminders = [\<lparr>r_id = ex_rid, r_time = hours 100, r_message = ''Submit resume'',
                    r_created_by = 2, r_creator_name = ''2'', r_created_at = 0\<rparr>],
      blocked = [\<lparr>b_user_id = 9, b_reason = ''Spam detected'', b_blocked_at = 50\<rparr>],
      pending_deletes = [\<lparr>p_rid = ex_rid, p_requested_by = 2, p_requested_at = 90\<rparr>],
      jobs = ex_jobs,
      user_requests = (\<lambda>_. []),
      outbox = []\<rparr>"

text \<open>The scenario after the superadmin approved the pending request.\<close>

definition ex_approved :: bot_state where
  "ex_approved = ex_state\<lparr>reminders := [], jobs := [ping_self_job], pending_deletes := [],
     outbox := [(Chat 1, [S ''Reminder '', S ex_rid, S '' deleted after approval.'']),
                (Chat 2, [S ''Your deletion request for '', S ex_rid, S '' was approved.''])]\<rparr>"

text \<open>
  The reminder's id typed in upper case, which \<open>ObjectId\<close> reads as the same id, and
  the scenario after the admin asked for the deletion of the reminder under that
  spelling.
\<close>

definition ex_rid_upper :: string where
  "ex_rid_upper = ''65A1B2C3D4E5F60718293A4B''"

definition ex_requested :: bot_state where
  "ex_requested = ex_state\<lparr>pending_deletes :=
       [\<lparr>p_rid = ex_rid, p_requested_by = 2, p_requested_at = 90\<rparr>,
        \<lparr>p_rid = ex_rid_upper, p_requested_by = 2, p_requested_at = 100\<rparr>],
     outbox :=
       [(Chat 2, [S ''Deletion request sent to superadmin.'']),
        (Chat 1, [S ''Admin '', I 2, S '' requested deletion of reminder `'', S ex_rid_upper,
          S ''`.\<newline>Use /approve '', S ex_rid_upper, S '' or /reject '', S ex_rid_upper, S ''.''])]\<rparr>"

section \<open>Properties of the abuse guard\<close>

lemma check_spam_operator:
  "is_admin_or_superadmin (uid u) s \<Longrightarrow> check_spam e u s = (True, s)"
  by (simp add: check_spam_def)

lemma is_admin_or_superadmin_frame:
  "is_admin_or_superadmin x (s\<lparr>blocked := b, user_requests := r\<rparr>) = is_admin_or_superadmin x s"
  by (simp add: is_admin_or_superadmin_def)

lemma check_spam_seq_operator:
  "is_admin_or_superadmin (uid u) s \<Longrightarrow> check_spam_seq e ts u s = (replicate (length ts) True, s)"
  by (induction ts) (simp_all add: check_spam_operator)

text \<open>
  C3. For a caller with an admin or superadmin entry, \<open>check_spam\<close> allows the call and
  leaves the state as it was, whatever the block list and the request history hold; any
  number of calls in a row are all allowed, and they leave the state as it was, so the
  caller is never blocked by them.
\<close>

theorem C3_operator_never_blocked:
  assumes "is_admin_or_superadmin (uid u) s"
  shows "check_spam e u (s\<lparr>blocked := b, user_requests := r\<rparr>)
           = (True, s\<lparr>blocked := b, user_requests := r\<rparr>)
       \<and> check_spam_seq e ts u s = (replicate (length ts) True, s)"
  using assms
  by (simp add: check_spam_operator is_admin_or_superadmin_frame check_spam_seq_operator)

theorem C3_operator_never_blocked_witness:
  "is_admin_or_superadmin (uid ex_super) ex_state
   \<and> check_spam ex_env ex_super
        (ex_state\<lparr>blocked := [\<lparr>b_user_id = 1, b_reason = ''Spam detected'', b_blocked_at = 0\<rparr>],
                  user_requests := (\<lambda>_. replicate 100 99)\<rparr>)
       = (True, ex_state\<lparr>blocked := [\<lparr>b_user_id = 1, b_reason = ''Spam detected'', b_blocked_at = 0\<rparr>],
                  user_requests := (\<lambda>_. replicate 100 99)\<rparr>)
   \<and> check_spam_seq ex_env (replicate 100 100) ex_super ex_state = (replicate 100 True, ex_state)"
proof -
  have op: "is_admin_or_superadmin (uid ex_super) ex_state"
    by (simp add: is_admin_or_superadmin_def ex_super_def ex_state_def)
  from C3_operator_never_blocked [OF op, where e = ex_env
      and b = "[\<lparr>b_user_id = 1, b_reason = ''Spam detected'', b_blocked_at = 0\<rparr>]"
      and r = "\<lambda>_. replicate 100 99" and ts = "replicate 100 100"] op
  show ?thesis by simp
qed

lemma check_spam_nonop:
  assumes "\<not> is_admin_or_superadmin (uid u) s" and "\<not> is_blocked (uid u) s"
  shows "check_spam e u s =
     (let hist = filter (\<lambda>t. time_time e - t < 10) (user_requests s (uid u)) @ [time_time e];
          s1 = s\<lparr>user_requests := (user_requests s)(uid u := hist)\<rparr>
      in if length hist > 5
         then (False, reply_text u msg_spam
                 (s1\<lparr>blocked := blocked s @
                    [\<lparr>b_user_id = uid u, b_reason = ''Spam detected'',
                      b_blocked_at = time_time e\<rparr>]\<rparr>))
         else (True, s1))"
  using assms
  by (simp add: check_spam_def rate_limit_def Let_def TIME_WINDOW_def REQUEST_LIMIT_def
      block_user_def upsert_one_def is_blocked_def)

lemma six_requests:
  assumes "\<not> is_admin_or_superadmin (uid u) s" and "\<not> is_blocked (uid u) s"
    and "filter (\<lambda>t. t1 - t < 10) (user_requests s (uid u)) = []"
    and "t1 \<le> t2" "t2 \<le> t3" "t3 \<le> t4" "t4 \<le> t5" "t5 \<le> t6" and "t6 - t1 < 10"
  shows "fst (check_spam_seq e [t1, t2, t3, t4, t5, t6] u s)
           = [True, True, True, True, True, False]"
    and "blocked (snd (check_spam_seq e [t1, t2, t3, t4, t5, t6] u s)) =
           blocked s @ [\<lparr>b_user_id = uid u, b_reason = ''Spam detected'', b_blocked_at = t6\<rparr>]"
  using assms
  by (simp_all add: check_spam_def rate_limit_def Let_def TIME_WINDOW_def REQUEST_LIMIT_def
      block_user_def upsert_one_def is_blocked_def is_admin_or_superadmin_def reply_text_def
      send_message_def)

text \<open>
  C4. A caller with no admins entry and no block entry: \<open>check_spam\<close> keeps the request
  times \<open>t\<close> with \<open>now - t < 10\<close>, appends \<open>now\<close>, and when more than 5 remain it
  appends a block entry with the reason \<open>Spam detected\<close>, tells the caller and denies;
  otherwise it allows. Six requests within less than 10 time units, with no earlier
  request in the window, are allowed five times and denied the sixth time.
\<close>

theorem C4_rate_limit:
  assumes "\<not> is_admin_or_superadmin (uid u) s" and "\<not> is_blocked (uid u) s"
  shows "check_spam e u s =
     (let hist = filter (\<lambda>t. time_time e - t < 10) (user_requests s (uid u)) @ [time_time e];
          s1 = s\<lparr>user_requests := (user_requests s)(uid u := hist)\<rparr>
      in if length hist > 5
         then (False, reply_text u msg_spam
                 (s1\<lparr>blocked := blocked s @
                    [\<lparr>b_user_id = uid u, b_reason = ''Spam detected'',
                      b_blocked_at = time_time e\<rparr>]\<rparr>))
         else (True, s1))
   \<and> (filter (\<lambda>t. t1 - t < 10) (user_requests s (uid u)) = []
        \<and> t1 \<le> t2 \<and> t2 \<le> t3 \<and> t3 \<le> t4 \<and> t4 \<le> t5 \<and> t5 \<le> t6 \<and> t6 - t1 < 10
      \<longrightarrow> fst (check_spam_seq e [t1, t2, t3, t4, t5, t6] u s)
             = [True, True, True, True, True, False]
          \<and> blocked (snd (check_spam_seq e [t1, t2, t3, t4, t5, t6] u s)) =
              blocked s @ [\<lparr>b_user_id = uid u, b_reason = ''Spam detected'', b_blocked_at = t6\<rparr>])"
  using check_spam_nonop [OF assms] six_requests [OF assms]
  by simp

theorem C4_rate_limit_witness:
  "\<not> is_admin_or_superadmin (uid ex_guest) ex_state
   \<and> \<not> is_blocked (uid ex_guest) ex_state
   \<and> check_spam ex_env ex_guest ex_state
       = (True, ex_state\<lparr>user_requests := (\<lambda>_. [])(7 := [100])\<rparr>)
   \<and> fst (check_spam_seq ex_env [100, 101, 102, 103, 104, 105] ex_guest ex_state)
       = [True, True, True, True, True, False]
   \<and> blocked (snd (check_spam_seq ex_env [100, 101, 102, 103, 104, 105] ex_guest ex_state)) =
       [\<lparr>b_user_id = 9, b_reason = ''Spam detected'', b_blocked_at = 50\<rparr>,
        \<lparr>b_user_id = 7, b_reason = ''Spam detected'', b_blocked_at = 105\<rparr>]"
proof -
  have a: "\<not> is_admin_or_superadmin (uid ex_guest) ex_state"
    by (simp add: is_admin_or_superadmin_def ex_guest_def ex_state_def)
  have b: "\<not> is_blocked (uid ex_guest) ex_state"
    by (simp add: is_blocked_def ex_guest_def ex_state_def)
  note th = C4_rate_limit [OF a b, where e = ex_env and ?t1.0 = 100 and ?t2.0 = 101
      and ?t3.0 = 102 and ?t4.0 = 103 and ?t5.0 = 104 and ?t6.0 = 105]
  have h: "filter (\<lambda>t. 100 - t < 10) (user_requests ex_state (uid ex_guest)) = []
      \<and> (100::real) \<le> 101 \<and> (101::real) \<le> 102 \<and> (102::real) \<le> 103 \<and> (103::real) \<le> 104
      \<and> (104::real) \<le> 105 \<and> (105::real) - 100 < 10"
    by (simp add: ex_state_def)
  note six = th [THEN conjunct2, THEN mp, OF h]
  have bl: "blocked ex_state = [\<lparr>b_user_id = 9, b_reason = ''Spam detected'', b_blocked_at = 50\<rparr>]"
    and ug: "uid ex_guest = 7"
    by (simp_all add: ex_state_def ex_guest_def)
  have first: "check_spam ex_env ex_guest ex_state
       = (True, ex_state\<lparr>user_requests := (\<lambda>_. [])(7 := [100])\<rparr>)"
    using th [THEN conjunct1] by (simp add: Let_def ex_state_def ex_env_def ex_guest_def)
  from six have s1: "fst (check_spam_seq ex_env [100, 101, 102, 103, 104, 105] ex_guest ex_state)
       = [True, True, True, True, True, False]"
    by (rule conjunct1)
  from six have s2: "blocked (snd (check_spam_seq ex_env [100, 101, 102, 103, 104, 105]
       ex_guest ex_state)) =
       [\<lparr>b_user_id = 9, b_reason = ''Spam detected'', b_blocked_at = 50\<rparr>,
        \<lparr>b_user_id = 7, b_reason = ''Spam detected'', b_blocked_at = 105\<rparr>]"
    unfolding bl ug by (simp del: check_spam_seq.simps)
  from a b first s1 s2 show ?thesis by blast
qed

text \<open>
  The block entry written on the sixth request carries the default reason of
  \<open>block_user\<close>, not the words \<open>rate limit exceeded\<close>.
\<close>

theorem C4_reason_counterexample:
  "\<not> is_admin_or_superadmin (uid ex_guest) ex_state
   \<and> \<not> is_blocked (uid ex_guest) ex_state
   \<and> map b_reason (filter (\<lambda>b. b_user_id b = uid ex_guest)
        (blocked (snd (check_spam_seq ex_env [100, 101, 102, 103, 104, 105] ex_guest ex_state))))
       = [''Spam detected'']
   \<and> ''Spam detected'' \<noteq> ''rate limit exceeded''"
proof -
  have a: "\<not> is_admin_or_superadmin (uid ex_guest) ex_state"
    by (simp add: is_admin_or_superadmin_def ex_guest_def ex_state_def)
  have b: "\<not> is_blocked (uid ex_guest) ex_state"
    by (simp add: is_blocked_def ex_guest_def ex_state_def)
  have c: "filter (\<lambda>t. 100 - t < 10) (user_requests ex_state (uid ex_guest)) = []"
    by (simp add: ex_state_def)
  have bl: "blocked ex_state = [\<lparr>b_user_id = 9, b_reason = ''Spam detected'', b_blocked_at = 50\<rparr>]"
    and ug: "uid ex_guest = 7"
    by (simp_all add: ex_state_def ex_guest_def)
  have six: "blocked (snd (check_spam_seq ex_env [100, 101, 102, 103, 104, 105]
       ex_guest ex_state)) =
       blocked ex_state @ [\<lparr>b_user_id = uid ex_guest, b_reason = ''Spam detected'',
         b_blocked_at = 105\<rparr>]"
    by (rule six_requests(2) [OF a b c]) simp_all
  have r: "map b_reason (filter (\<lambda>b. b_user_id b = uid ex_guest)
        (blocked (snd (check_spam_seq ex_env [100, 101, 102, 103, 104, 105] ex_guest ex_state))))
       = [''Spam detected'']"
    unfolding six bl ug by simp
  have n: "''Spam detected'' \<noteq> ''rate limit exceeded''" by simp
  from a b r n show ?thesis by blast
qed

section \<open>Properties of the scheduler\<close>

lemma str_nat_small:
  "str_nat 0 = ''0''" "str_nat (Suc 0) = ''1''" "str_nat 2 = ''2''" "str_nat 3 = ''3''" "str_nat 4 = ''4''"
  by (simp_all add: str_nat.simps digit_char_def)

lemma schedule_loop_naive:
  assumes "distinct (map (\<lambda>x. make_job_id rid (fst x)) ents)"
  shows "schedule_loop (Naive n) rid (Naive t) m ents js =
    (None,
     filter (\<lambda>j. job_id j \<notin> set (map (\<lambda>x. make_job_id rid (fst x))
                (filter (\<lambda>x. t - fst (snd x) > n) ents))) js
     @ map (\<lambda>x. \<lparr>job_id = make_job_id rid (fst x), job_trigger = Date (Naive (t - fst (snd x))),
                   job_text = snd (snd x) @ '' '' @ m\<rparr>)
         (filter (\<lambda>x. t - fst (snd x) > n) ents))"
  using assms
proof (induction ents arbitrary: js)
  case Nil
  then show ?case by simp
next
  case (Cons x ents)
  obtain i off pre where x: "x = (i, off, pre)" by (cases x)
  from Cons.prems x have d: "distinct (map (\<lambda>x. make_job_id rid (fst x)) ents)"
    and ni: "make_job_id rid i \<notin> set (map (\<lambda>x. make_job_id rid (fst x)) ents)"
    by simp_all
  from ni have ni': "make_job_id rid i \<notin> set (map (\<lambda>x. make_job_id rid (fst x))
      (filter (\<lambda>x. t - fst (snd x) > n) ents))"
    by auto
  show ?case
  proof (cases "t - off > n")
    case True
    then show ?thesis using ni'
      by (simp add: x Cons.IH [OF d] remove_job_def add_job_def Let_def conj_commute)
  next
    case False
    then show ?thesis by (simp add: x Cons.IH [OF d])
  qed
qed

lemma schedule_loop_aware:
  "schedule_loop (Naive n) rid (Aware t) m (x # ents) js = (Some TypeError, js)"
  by (cases x) simp

lemma ladder_unfold:
  "zip [0 ..< length get_intervals] get_intervals =
     [(0, hours 2, ''Reminder in 2 hours:''), (1, hours 1, ''Reminder in 1 hour:''),
      (2, minutes 30, ''Reminder in 30 minutes:''), (3, minutes 15, ''Reminder in 15 minutes:''),
      (4, 0, ''It's time!'')]"
  by (simp add: get_intervals_def upt_rec)

lemma ladder_distinct:
  "distinct (map (\<lambda>x. make_job_id rid (fst x)) (zip [0 ..< length get_intervals] get_intervals))"
  by (simp add: ladder_unfold make_job_id_def str_nat_small)

lemma schedule_naive:
  "schedule_reminder_jobs e rid (Naive t) m s =
    (None, s\<lparr>jobs :=
     filter (\<lambda>j. job_id j \<notin> set (map (\<lambda>x. make_job_id rid (fst x))
                (filter (\<lambda>x. t - fst (snd x) > datetime_now e) (zip [0 ..< length get_intervals] get_intervals)))) (jobs s)
     @ map (\<lambda>x. \<lparr>job_id = make_job_id rid (fst x), job_trigger = Date (Naive (t - fst (snd x))),
                   job_text = snd (snd x) @ '' '' @ m\<rparr>)
         (filter (\<lambda>x. t - fst (snd x) > datetime_now e) (zip [0 ..< length get_intervals] get_intervals))\<rparr>)"
  by (simp add: schedule_reminder_jobs_def schedule_loop_naive [OF ladder_distinct])

lemma schedule_five:
  assumes "datetime_now e + hours 2 < t"
  shows "schedule_reminder_jobs e rid (Naive t) m s =
    (None, s\<lparr>jobs :=
       filter (\<lambda>j. job_id j \<notin> {rid @ ''_0'', rid @ ''_1'', rid @ ''_2'', rid @ ''_3'', rid @ ''_4''}) (jobs s)
       @ [\<lparr>job_id = rid @ ''_0'', job_trigger = Date (Naive (t - hours 2)),
            job_text = ''Reminder in 2 hours: '' @ m\<rparr>,
          \<lparr>job_id = rid @ ''_1'', job_trigger = Date (Naive (t - hours 1)),
            job_text = ''Reminder in 1 hour: '' @ m\<rparr>,
          \<lparr>job_id = rid @ ''_2'', job_trigger = Date (Naive (t - minutes 30)),
            job_text = ''Reminder in 30 minutes: '' @ m\<rparr>,
          \<lparr>job_id = rid @ ''_3'', job_trigger = Date (Naive (t - minutes 15)),
            job_text = ''Reminder in 15 minutes: '' @ m\<rparr>,
          \<lparr>job_id = rid @ ''_4'', job_trigger = Date (Naive t),
            job_text = ''It's time! '' @ m\<rparr>]\<rparr>)"
  using assms
  by (simp add: schedule_naive ladder_unfold make_job_id_def str_nat_small hours_def minutes_def)

lemma schedule_two:
  assumes "datetime_now e + minutes 15 < t" "t \<le> datetime_now e + minutes 30"
  shows "schedule_reminder_jobs e rid (Naive t) m s =
    (None, s\<lparr>jobs :=
       filter (\<lambda>j. job_id j \<notin> {rid @ ''_3'', rid @ ''_4''}) (jobs s)
       @ [\<lparr>job_id = rid @ ''_3'', job_trigger = Date (Naive (t - minutes 15)),
            job_text = ''Reminder in 15 minutes: '' @ m\<rparr>,
          \<lparr>job_id = rid @ ''_4'', job_trigger = Date (Naive t),
            job_text = ''It's time! '' @ m\<rparr>]\<rparr>)"
  using assms
  by (simp add: schedule_naive ladder_unfold make_job_id_def str_nat_small hours_def minutes_def)

lemma schedule_none:
  assumes "t \<le> datetime_now e"
  shows "schedule_reminder_jobs e rid (Naive t) m s = (None, s)"
  using assms
  by (simp add: schedule_naive ladder_unfold make_job_id_def str_nat_small hours_def minutes_def)

lemma schedule_aware:
  "schedule_reminder_jobs e rid (Aware t) m s = (Some TypeError, s)"
  by (simp add: schedule_reminder_jobs_def ladder_unfold)

text \<open>
  C1. With an offset-naive target time \<open>t\<close> and \<open>now\<close> the reading of \<open>datetime.now()\<close>:
  when \<open>t\<close> is later than \<open>now\<close> plus two hours, \<open>schedule_reminder_jobs\<close> leaves exactly
  the five timers of the ladder under the reminder's keys; when \<open>t\<close> is later than
  \<open>now\<close> plus 15 minutes and at most \<open>now\<close> plus 30 minutes, it registers exactly the
  two timers of the offsets 15 minutes and 0; when \<open>t\<close> is not later than \<open>now\<close>, it
  registers nothing and leaves the state as it was.
\<close>

theorem C1_ladder_timers:
  "(datetime_now e + hours 2 < t \<longrightarrow>
      schedule_reminder_jobs e rid (Naive t) m s =
        (None, s\<lparr>jobs :=
           filter (\<lambda>j. job_id j \<notin> {rid @ ''_0'', rid @ ''_1'', rid @ ''_2'', rid @ ''_3'',
                                    rid @ ''_4''}) (jobs s)
           @ [\<lparr>job_id = rid @ ''_0'', job_trigger = Date (Naive (t - hours 2)),
                job_text = ''Reminder in 2 hours: '' @ m\<rparr>,
              \<lparr>job_id = rid @ ''_1'', job_trigger = Date (Naive (t - hours 1)),
                job_text = ''Reminder in 1 hour: '' @ m\<rparr>,
              \<lparr>job_id = rid @ ''_2'', job_trigger = Date (Naive (t - minutes 30)),
                job_text = ''Reminder in 30 minutes: '' @ m\<rparr>,
              \<lparr>job_id = rid @ ''_3'', job_trigger = Date (Naive (t - minutes 15)),
                job_text = ''Reminder in 15 minutes: '' @ m\<rparr>,
              \<lparr>job_id = rid @ ''_4'', job_trigger = Date (Naive t),
                job_text = ''It's time! '' @ m\<rparr>]\<rparr>))
   \<and> (datetime_now e + minutes 15 < t \<and> t \<le> datetime_now e + minutes 30 \<longrightarrow>
      schedule_reminder_jobs e rid (Naive t) m s =
        (None, s\<lparr>jobs :=
           filter (\<lambda>j. job_id j \<notin> {rid @ ''_3'', rid @ ''_4''}) (jobs s)
           @ [\<lparr>job_id = rid @ ''_3'', job_trigger = Date (Naive (t - minutes 15)),
                job_text = ''Reminder in 15 minutes: '' @ m\<rparr>,
              \<lparr>job_id = rid @ ''_4'', job_trigger = Date (Naive t),
                job_text = ''It's time! '' @ m\<rparr>]\<rparr>))
   \<and> (t \<le> datetime_now e \<longrightarrow> schedule_reminder_jobs e rid (Naive t) m s = (None, s))"
  by (simp add: schedule_five schedule_two schedule_none)

theorem C1_ladder_timers_witness:
  "datetime_now ex_env + hours 2 < hours 100
   \<and> jobs (snd (schedule_reminder_jobs ex_env ex_rid (Naive (hours 100)) ''Submit resume''
        (ex_state\<lparr>jobs := [ping_self_job]\<rparr>))) = ex_jobs
   \<and> datetime_now ex_env + minutes 15 < minutes 20
   \<and> minutes 20 \<le> datetime_now ex_env + minutes 30
   \<and> map job_id (jobs (snd (schedule_reminder_jobs ex_env ex_rid (Naive (minutes 20))
        ''Submit resume'' (ex_state\<lparr>jobs := [ping_self_job]\<rparr>))))
       = [''ping_self_job'', ex_rid @ ''_3'', ex_rid @ ''_4'']
   \<and> hours (- 1) \<le> datetime_now ex_env
   \<and> schedule_reminder_jobs ex_env ex_rid (Naive (hours (- 1))) ''Submit resume'' ex_state
       = (None, ex_state)"
  using C1_ladder_timers [of ex_env "hours 100" ex_rid "''Submit resume''"
      "ex_state\<lparr>jobs := [ping_self_job]\<rparr>"]
    C1_ladder_timers [of ex_env "minutes 20" ex_rid "''Submit resume''"
      "ex_state\<lparr>jobs := [ping_self_job]\<rparr>"]
    C1_ladder_timers [of ex_env "hours (- 1)" ex_rid "''Submit resume''" ex_state]
  by (simp add: ex_env_def ex_jobs_def ex_rid_def ping_self_job_def hours_def minutes_def)

text \<open>
  A target time of exactly \<open>now\<close> plus two hours is at least \<open>now\<close> plus two hours, and
  gets four timers: the fire time of the two-hour offset is \<open>now\<close>, which is not later
  than \<open>now\<close>.
\<close>

theorem C1_boundary_counterexample:
  "datetime_now ex_env + hours 2 \<le> hours 2
   \<and> map job_id (jobs (snd (schedule_reminder_jobs ex_env ex_rid (Naive (hours 2))
        ''Submit resume'' empty_db)))
       = [ex_rid @ ''_1'', ex_rid @ ''_2'', ex_rid @ ''_3'', ex_rid @ ''_4'']"
  by (simp add: schedule_naive ladder_unfold make_job_id_def str_nat_small ex_env_def
      empty_db_def hours_def minutes_def)

section \<open>Properties of the deletion workflow\<close>

lemma superadmin_is_operator:
  "is_superadmin x s \<Longrightarrow> is_admin_or_superadmin x s"
  by (auto simp: is_superadmin_def is_admin_or_superadmin_def find_None_iff)

lemma check_spam_superadmin:
  "is_superadmin (uid u) s \<Longrightarrow> check_spam e u s = (True, s)"
  by (simp add: check_spam_operator superadmin_is_operator)

lemma delete_one_distinct:
  "distinct (map f xs) \<Longrightarrow> delete_one (\<lambda>x. f x = k) xs = filter (\<lambda>x. f x \<noteq> k) xs"
proof (induction xs)
  case Nil
  then show ?case by simp
next
  case (Cons x xs)
  show ?case
  proof (cases "f x = k")
    case True
    with Cons.prems have "\<forall>y\<in>set xs. f y \<noteq> k" by (auto simp: image_iff)
    then have "filter (\<lambda>x. f x \<noteq> k) xs = xs" by (simp add: filter_id_conv)
    with True show ?thesis by simp
  next
    case False
    with Cons show ?thesis by simp
  qed
qed

lemma find_delete_one_distinct:
  "distinct (map f xs) \<Longrightarrow> find (\<lambda>x. f x = k) (delete_one (\<lambda>x. f x = k) xs) = None"
  by (simp add: delete_one_distinct find_None_iff)

lemma run_steps_simps:
  "run_steps [] s = s"
  "run_steps (f # fs) s = run_steps fs (f s)"
  by (simp_all add: run_steps_def)

lemma ObjectId_ex_rid: "ObjectId ex_rid = Inr ex_rid"
  by (simp add: ObjectId_def ex_rid_def is_hex_def lower_hex_def)

lemma approve_found:
  assumes "is_superadmin (uid u) s" "find (\<lambda>p. p_rid p = rid) (pending_deletes s) = Some req"
    "ObjectId rid = Inr oid"
  shows "approve_delete e u (rid # args) s =
           (None, run_steps (approve_steps u rid oid (p_requested_by req)) s)"
  using assms by (simp add: approve_delete_def check_spam_superadmin)

lemma approve_not_found:
  assumes "is_superadmin (uid u) s" "find (\<lambda>p. p_rid p = rid) (pending_deletes s) = None"
  shows "approve_delete e u (rid # args) s = (None, reply_text u [S ''No pending request.''] s)"
  using assms by (simp add: approve_delete_def check_spam_superadmin)

lemma approve_steps_result:
  "run_steps (approve_steps u rid oid requester) s =
     s\<lparr>reminders := delete_one (\<lambda>r. r_id r = oid) (reminders s),
       jobs := filter (\<lambda>j. \<not> prefix (rid @ ''_'') (job_id j)) (jobs s),
       pending_deletes := delete_one (\<lambda>p. p_rid p = rid) (pending_deletes s),
       outbox := outbox s @
         [(Chat (uid u), [S ''Reminder '', S rid, S '' deleted after approval.'']),
          (Chat requester, [S ''Your deletion request for '', S rid, S '' was approved.''])]\<rparr>"
  by (simp add: approve_steps_def run_steps_simps reminders_delete_one_def
      remove_reminder_jobs_def pending_delete_one_def reply_text_def send_message_def)

lemma delete_found:
  assumes "is_superadmin (uid u) s" "ObjectId rid = Inr oid"
    "find (\<lambda>r. r_id r = oid) (reminders s) \<noteq> None"
  shows "delete_reminder e u (rid # args) s = (None, run_steps (delete_steps u rid oid) s)"
  using assms
  by (auto simp add: delete_reminder_def delete_reminder_try_def check_spam_superadmin)




lemma first_statement:
  "run_steps (take (Suc 0) (delete_steps u rid oid)) s = reminders_delete_one oid s"
  "run_steps (take (Suc 0) (approve_steps u rid oid requester)) s = reminders_delete_one oid s"
  by (simp_all add: delete_steps_def approve_steps_def run_steps_simps)

lemma ex_state_facts:
  "is_superadmin (uid ex_super) ex_state"
  "find (\<lambda>r. r_id r = ex_rid) (reminders ex_state) \<noteq> None"
  "find (\<lambda>p. p_rid p = ex_rid) (pending_deletes ex_state)
     = Some \<lparr>p_rid = ex_rid, p_requested_by = 2, p_requested_at = 90\<rparr>"
  "distinct (map r_id (reminders ex_state))"
  "distinct (map p_rid (pending_deletes ex_state))"
  "reminders ex_state \<noteq> []"
  "jobs ex_state = ex_jobs"
  by (simp_all add: ex_state_def ex_super_def is_superadmin_def)

lemma ex_jobs_of_reminder:
  "map job_id (filter (\<lambda>j. prefix (ex_rid @ ''_'') (job_id j)) ex_jobs)
     = [ex_rid @ ''_0'', ex_rid @ ''_1'', ex_rid @ ''_2'', ex_rid @ ''_3'', ex_rid @ ''_4'']"
  "filter (\<lambda>j. \<not> prefix (ex_rid @ ''_'') (job_id j)) ex_jobs = [ping_self_job]"
  by (simp_all add: ex_jobs_def ping_self_job_def ex_rid_def)

lemma second_statement:
  "run_steps (take 2 (delete_steps u rid oid)) s
     = remove_reminder_jobs rid (reminders_delete_one oid s)"
  "run_steps (take 2 (approve_steps u rid oid requester)) s
     = remove_reminder_jobs rid (reminders_delete_one oid s)"
  by (simp_all add: delete_steps_def approve_steps_def run_steps_simps)

lemma delete_steps_result:
  "run_steps (delete_steps u rid oid) s =
     s\<lparr>reminders := delete_one (\<lambda>r. r_id r = oid) (reminders s),
       jobs := filter (\<lambda>j. \<not> prefix (rid @ ''_'') (job_id j)) (jobs s),
       outbox := outbox s @ [(Chat (uid u), [S ''Reminder '', S rid, S '' deleted.''])]\<rparr>"
  by (simp add: delete_steps_def run_steps_simps reminders_delete_one_def
      remove_reminder_jobs_def reply_text_def send_message_def)

text \<open>
  C2. Both deletion paths, the superadmin's \<open>deletereminder\<close> and \<open>approve\<close>, run
  the same two statements first, for an id typed as the bot prints it and unique ids in
  the collections: the first deletes the reminder's record and leaves every timer
  registered, the second then cancels the timers under the reminder's keys and nothing
  else. The paths end with the record gone and those timers cancelled.
\<close>

theorem C2_record_deleted_before_timers:
  assumes sup: "is_superadmin (uid u) s"
    and oid: "ObjectId rid = Inr rid"
    and dr: "distinct (map r_id (reminders s))"
    and dp: "distinct (map p_rid (pending_deletes s))"
  shows
   "(find (\<lambda>r. r_id r = rid) (reminders s) \<noteq> None \<longrightarrow>
       delete_reminder e u (rid # args) s = (None, run_steps (delete_steps u rid rid) s))
    \<and> (find (\<lambda>p. p_rid p = rid) (pending_deletes s) = Some req \<longrightarrow>
       approve_delete e u (rid # args) s
         = (None, run_steps (approve_steps u rid rid (p_requested_by req)) s))
    \<and> run_steps (take 1 (delete_steps u rid rid)) s
        = s\<lparr>reminders := filter (\<lambda>r. r_id r \<noteq> rid) (reminders s)\<rparr>
    \<and> run_steps (take 2 (delete_steps u rid rid)) s
        = s\<lparr>reminders := filter (\<lambda>r. r_id r \<noteq> rid) (reminders s),
             jobs := filter (\<lambda>j. \<not> prefix (rid @ ''_'') (job_id j)) (jobs s)\<rparr>
    \<and> run_steps (delete_steps u rid rid) s
        = s\<lparr>reminders := filter (\<lambda>r. r_id r \<noteq> rid) (reminders s),
             jobs := filter (\<lambda>j. \<not> prefix (rid @ ''_'') (job_id j)) (jobs s),
             outbox := outbox s @ [(Chat (uid u), [S ''Reminder '', S rid, S '' deleted.''])]\<rparr>
    \<and> run_steps (take 1 (approve_steps u rid rid requester)) s
        = s\<lparr>reminders := filter (\<lambda>r. r_id r \<noteq> rid) (reminders s)\<rparr>
    \<and> run_steps (take 2 (approve_steps u rid rid requester)) s
        = s\<lparr>reminders := filter (\<lambda>r. r_id r \<noteq> rid) (reminders s),
             jobs := filter (\<lambda>j. \<not> prefix (rid @ ''_'') (job_id j)) (jobs s)\<rparr>
    \<and> run_steps (approve_steps u rid rid requester) s
        = s\<lparr>reminders := filter (\<lambda>r. r_id r \<noteq> rid) (reminders s),
             jobs := filter (\<lambda>j. \<not> prefix (rid @ ''_'') (job_id j)) (jobs s),
             pending_deletes := filter (\<lambda>p. p_rid p \<noteq> rid) (pending_deletes s),
             outbox := outbox s @
               [(Chat (uid u), [S ''Reminder '', S rid, S '' deleted after approval.'']),
                (Chat requester, [S ''Your deletion request for '', S rid, S '' was approved.''])]\<rparr>"
proof -
  have 1: "find (\<lambda>r. r_id r = rid) (reminders s) \<noteq> None \<longrightarrow>
       delete_reminder e u (rid # args) s = (None, run_steps (delete_steps u rid rid) s)"
    using delete_found [OF sup oid] by blast
  have 2: "find (\<lambda>p. p_rid p = rid) (pending_deletes s) = Some req \<longrightarrow>
       approve_delete e u (rid # args) s
         = (None, run_steps (approve_steps u rid rid (p_requested_by req)) s)"
    using approve_found [OF sup _ oid] by blast
  have 3: "run_steps (take 1 (delete_steps u rid rid)) s
        = s\<lparr>reminders := filter (\<lambda>r. r_id r \<noteq> rid) (reminders s)\<rparr>"
    and 6: "run_steps (take 1 (approve_steps u rid rid requester)) s
        = s\<lparr>reminders := filter (\<lambda>r. r_id r \<noteq> rid) (reminders s)\<rparr>"
    by (simp_all add: first_statement reminders_delete_one_def delete_one_distinct [OF dr])
  have 4: "run_steps (take 2 (delete_steps u rid rid)) s
        = s\<lparr>reminders := filter (\<lambda>r. r_id r \<noteq> rid) (reminders s),
             jobs := filter (\<lambda>j. \<not> prefix (rid @ ''_'') (job_id j)) (jobs s)\<rparr>"
    and 7: "run_steps (take 2 (approve_steps u rid rid requester)) s
        = s\<lparr>reminders := filter (\<lambda>r. r_id r \<noteq> rid) (reminders s),
             jobs := filter (\<lambda>j. \<not> prefix (rid @ ''_'') (job_id j)) (jobs s)\<rparr>"
    by (simp_all add: second_statement reminders_delete_one_def remove_reminder_jobs_def
        delete_one_distinct [OF dr])
  have 5: "run_steps (delete_steps u rid rid) s
        = s\<lparr>reminders := filter (\<lambda>r. r_id r \<noteq> rid) (reminders s),
             jobs := filter (\<lambda>j. \<not> prefix (rid @ ''_'') (job_id j)) (jobs s),
             outbox := outbox s @ [(Chat (uid u), [S ''Reminder '', S rid, S '' deleted.''])]\<rparr>"
    by (simp add: delete_steps_result delete_one_distinct [OF dr])
  have 8: "run_steps (approve_steps u rid rid requester) s
        = s\<lparr>reminders := filter (\<lambda>r. r_id r \<noteq> rid) (reminders s),
             jobs := filter (\<lambda>j. \<not> prefix (rid @ ''_'') (job_id j)) (jobs s),
             pending_deletes := filter (\<lambda>p. p_rid p \<noteq> rid) (pending_deletes s),
             outbox := outbox s @
               [(Chat (uid u), [S ''Reminder '', S rid, S '' deleted after approval.'']),
                (Chat requester, [S ''Your deletion request for '', S rid, S '' was approved.''])]\<rparr>"
    by (simp add: approve_steps_result delete_one_distinct [OF dr] delete_one_distinct [OF dp])
  from 1 2 3 4 5 6 7 8 show ?thesis by blast
qed

theorem C2_record_deleted_before_timers_witness:
  "is_superadmin (uid ex_super) ex_state \<and> ObjectId ex_rid = Inr ex_rid
   \<and> distinct (map r_id (reminders ex_state)) \<and> distinct (map p_rid (pending_deletes ex_state))
   \<and> find (\<lambda>r. r_id r = ex_rid) (reminders ex_state) \<noteq> None
   \<and> delete_reminder ex_env ex_super [ex_rid] ex_state
       = (None, run_steps (delete_steps ex_super ex_rid ex_rid) ex_state)
   \<and> run_steps (take 1 (delete_steps ex_super ex_rid ex_rid)) ex_state
       = ex_state\<lparr>reminders := []\<rparr>
   \<and> run_steps (take 2 (delete_steps ex_super ex_rid ex_rid)) ex_state
       = ex_state\<lparr>reminders := [], jobs := [ping_self_job]\<rparr>
   \<and> run_steps (delete_steps ex_super ex_rid ex_rid) ex_state
       = ex_state\<lparr>reminders := [], jobs := [ping_self_job],
           outbox := [(Chat 1, [S ''Reminder '', S ex_rid, S '' deleted.''])]\<rparr>
   \<and> find (\<lambda>p. p_rid p = ex_rid) (pending_deletes ex_state)
       = Some \<lparr>p_rid = ex_rid, p_requested_by = 2, p_requested_at = 90\<rparr>
   \<and> approve_delete ex_env ex_super [ex_rid] ex_state
       = (None, run_steps (approve_steps ex_super ex_rid ex_rid 2) ex_state)
   \<and> run_steps (take 1 (approve_steps ex_super ex_rid ex_rid 2)) ex_state
       = ex_state\<lparr>reminders := []\<rparr>
   \<and> run_steps (take 2 (approve_steps ex_super ex_rid ex_rid 2)) ex_state
       = ex_state\<lparr>reminders := [], jobs := [ping_self_job]\<rparr>
   \<and> run_steps (approve_steps ex_super ex_rid ex_rid 2) ex_state = ex_approved"
proof -
  note th = C2_record_deleted_before_timers [OF ex_state_facts(1) ObjectId_ex_rid ex_state_facts(4) ex_state_facts(5),
      of ex_env "[]" "\<lparr>p_rid = ex_rid, p_requested_by = 2, p_requested_at = 90\<rparr>" 2]
  have rem: "filter (\<lambda>r. r_id r \<noteq> ex_rid) (reminders ex_state) = []"
    and pen: "filter (\<lambda>p. p_rid p \<noteq> ex_rid) (pending_deletes ex_state) = []"
    and out: "outbox ex_state = []" and us: "uid ex_super = 1"
    by (simp_all add: ex_state_def ex_super_def)
  note th' = th [unfolded rem pen out us ex_state_facts(7) ex_jobs_of_reminder(2)]
  have ap: "ex_state\<lparr>reminders := [], jobs := [ping_self_job], pending_deletes := [],
      outbox := [] @ [(Chat 1, [S ''Reminder '', S ex_rid, S '' deleted after approval.'']),
                (Chat 2, [S ''Your deletion request for '', S ex_rid, S '' was approved.''])]\<rparr>
      = ex_approved"
    by (simp add: ex_approved_def)
  from th' ex_state_facts(1,2,3,4,5) ObjectId_ex_rid ap show ?thesis by simp
qed

text \<open>
  In the scenario, between the two statements of either path the reminder is gone and
  its five timers are registered: timers without a backing reminder.
\<close>

theorem C2_orphan_timers_counterexample:
  "delete_reminder ex_env ex_super [ex_rid] ex_state
       = (None, run_steps (delete_steps ex_super ex_rid ex_rid) ex_state)
   \<and> reminders ex_state \<noteq> []
   \<and> reminders (run_steps (take 1 (delete_steps ex_super ex_rid ex_rid)) ex_state) = []
   \<and> map job_id (filter (\<lambda>j. prefix (ex_rid @ ''_'') (job_id j))
        (jobs (run_steps (take 1 (delete_steps ex_super ex_rid ex_rid)) ex_state)))
       = [ex_rid @ ''_0'', ex_rid @ ''_1'', ex_rid @ ''_2'', ex_rid @ ''_3'', ex_rid @ ''_4'']
   \<and> approve_delete ex_env ex_super [ex_rid] ex_state
       = (None, run_steps (approve_steps ex_super ex_rid ex_rid 2) ex_state)
   \<and> reminders (run_steps (take 1 (approve_steps ex_super ex_rid ex_rid 2)) ex_state) = []
   \<and> map job_id (filter (\<lambda>j. prefix (ex_rid @ ''_'') (job_id j))
        (jobs (run_steps (take 1 (approve_steps ex_super ex_rid ex_rid 2)) ex_state)))
       = [ex_rid @ ''_0'', ex_rid @ ''_1'', ex_rid @ ''_2'', ex_rid @ ''_3'', ex_rid @ ''_4'']"
proof -
  have d: "delete_reminder ex_env ex_super [ex_rid] ex_state
       = (None, run_steps (delete_steps ex_super ex_rid ex_rid) ex_state)"
    by (rule delete_found [OF ex_state_facts(1) ObjectId_ex_rid ex_state_facts(2)])
  have a: "approve_delete ex_env ex_super [ex_rid] ex_state
       = (None, run_steps (approve_steps ex_super ex_rid ex_rid 2) ex_state)"
    using approve_found [OF ex_state_facts(1) ex_state_facts(3) ObjectId_ex_rid] by simp
  have r: "reminders (reminders_delete_one ex_rid ex_state) = []"
    by (simp add: reminders_delete_one_def ex_state_def)
  have j: "jobs (reminders_delete_one ex_rid ex_state) = ex_jobs"
    by (simp add: reminders_delete_one_def ex_state_def)
  from d a r j ex_state_facts(6) show ?thesis
    by (simp add: first_statement ex_jobs_of_reminder)
qed


lemma approve_result:
  assumes sup: "is_superadmin (uid u) s"
    and req: "find (\<lambda>p. p_rid p = rid) (pending_deletes s) = Some req"
    and oid: "ObjectId rid = Inr rid"
    and dr: "distinct (map r_id (reminders s))"
    and dp: "distinct (map p_rid (pending_deletes s))"
  shows "approve_delete e u (rid # args) s =
     (None, s\<lparr>reminders := filter (\<lambda>r. r_id r \<noteq> rid) (reminders s),
              jobs := filter (\<lambda>j. \<not> prefix (rid @ ''_'') (job_id j)) (jobs s),
              pending_deletes := filter (\<lambda>p. p_rid p \<noteq> rid) (pending_deletes s),
              outbox := outbox s @
                [(Chat (uid u), [S ''Reminder '', S rid, S '' deleted after approval.'']),
                 (Chat (p_requested_by req),
                  [S ''Your deletion request for '', S rid, S '' was approved.''])]\<rparr>)"
  by (simp add: approve_found [OF sup req oid] approve_steps_result
      delete_one_distinct [OF dr] delete_one_distinct [OF dp])

lemma approve_not_found':
  assumes "is_superadmin (uid u) s" "find (\<lambda>p. p_rid p = rid) (pending_deletes s) = None"
  shows "approve_delete e u (rid # args) s =
     (None, s\<lparr>outbox := outbox s @ [(Chat (uid u), [S ''No pending request.''])]\<rparr>)"
  using assms by (simp add: approve_not_found reply_text_def send_message_def)

text \<open>
  \<open>approve\<close> by a superadmin. With no pending request for the id it replies
  \<open>No pending request.\<close> and changes nothing else. With a pending request, for an id
  typed as the bot prints it, it deletes the reminder, cancels the timers keyed by the
  id, removes the pending request, tells the caller and the requester, and a second
  \<open>approve\<close> of the id then replies \<open>No pending request.\<close>
\<close>

lemma approve_printed_id:
  assumes "is_superadmin (uid u) s"
  shows "(find (\<lambda>p. p_rid p = rid) (pending_deletes s) = None \<longrightarrow>
          approve_delete e u (rid # args) s =
            (None, s\<lparr>outbox := outbox s @ [(Chat (uid u), [S ''No pending request.''])]\<rparr>))
   \<and> (find (\<lambda>p. p_rid p = rid) (pending_deletes s) = Some req \<and> ObjectId rid = Inr rid
        \<and> distinct (map r_id (reminders s)) \<and> distinct (map p_rid (pending_deletes s)) \<longrightarrow>
        (let s' = s\<lparr>reminders := filter (\<lambda>r. r_id r \<noteq> rid) (reminders s),
                     jobs := filter (\<lambda>j. \<not> prefix (rid @ ''_'') (job_id j)) (jobs s),
                     pending_deletes := filter (\<lambda>p. p_rid p \<noteq> rid) (pending_deletes s),
                     outbox := outbox s @
                       [(Chat (uid u), [S ''Reminder '', S rid, S '' deleted after approval.'']),
                        (Chat (p_requested_by req),
                         [S ''Your deletion request for '', S rid, S '' was approved.''])]\<rparr>
         in approve_delete e u (rid # args) s = (None, s')
            \<and> find (\<lambda>r. r_id r = rid) (reminders s') = None
            \<and> filter (\<lambda>j. prefix (rid @ ''_'') (job_id j)) (jobs s') = []
            \<and> find (\<lambda>p. p_rid p = rid) (pending_deletes s') = None
            \<and> approve_delete e2 u (rid # args2) s' =
                (None, s'\<lparr>outbox := outbox s' @ [(Chat (uid u), [S ''No pending request.''])]\<rparr>)))"
proof (intro conjI impI)
  assume "find (\<lambda>p. p_rid p = rid) (pending_deletes s) = None"
  with assms show "approve_delete e u (rid # args) s =
            (None, s\<lparr>outbox := outbox s @ [(Chat (uid u), [S ''No pending request.''])]\<rparr>)"
    by (rule approve_not_found')
next
  assume h: "find (\<lambda>p. p_rid p = rid) (pending_deletes s) = Some req \<and> ObjectId rid = Inr rid
        \<and> distinct (map r_id (reminders s)) \<and> distinct (map p_rid (pending_deletes s))"
  define s' where "s' = s\<lparr>reminders := filter (\<lambda>r. r_id r \<noteq> rid) (reminders s),
                     jobs := filter (\<lambda>j. \<not> prefix (rid @ ''_'') (job_id j)) (jobs s),
                     pending_deletes := filter (\<lambda>p. p_rid p \<noteq> rid) (pending_deletes s),
                     outbox := outbox s @
                       [(Chat (uid u), [S ''Reminder '', S rid, S '' deleted after approval.'']),
                        (Chat (p_requested_by req),
                         [S ''Your deletion request for '', S rid, S '' was approved.''])]\<rparr>"
  have 1: "approve_delete e u (rid # args) s = (None, s')"
    unfolding s'_def using assms h by (intro approve_result) simp_all
  have 2: "find (\<lambda>r. r_id r = rid) (reminders s') = None"
    by (simp add: s'_def find_None_iff)
  have 3: "filter (\<lambda>j. prefix (rid @ ''_'') (job_id j)) (jobs s') = []"
    by (simp add: s'_def)
  have 4: "find (\<lambda>p. p_rid p = rid) (pending_deletes s') = None"
    by (simp add: s'_def find_None_iff)
  have sup': "is_superadmin (uid u) s'"
    using assms by (simp add: s'_def is_superadmin_def)
  have 5: "approve_delete e2 u (rid # args2) s' =
                (None, s'\<lparr>outbox := outbox s' @ [(Chat (uid u), [S ''No pending request.''])]\<rparr>)"
    by (rule approve_not_found' [OF sup' 4])
  from 1 2 3 4 5 show "let s' = s\<lparr>reminders := filter (\<lambda>r. r_id r \<noteq> rid) (reminders s),
                     jobs := filter (\<lambda>j. \<not> prefix (rid @ ''_'') (job_id j)) (jobs s),
                     pending_deletes := filter (\<lambda>p. p_rid p \<noteq> rid) (pending_deletes s),
                     outbox := outbox s @
                       [(Chat (uid u), [S ''Reminder '', S rid, S '' deleted after approval.'']),
                        (Chat (p_requested_by req),
                         [S ''Your deletion request for '', S rid, S '' was approved.''])]\<rparr>
         in approve_delete e u (rid # args) s = (None, s')
            \<and> find (\<lambda>r. r_id r = rid) (reminders s') = None
            \<and> filter (\<lambda>j. prefix (rid @ ''_'') (job_id j)) (jobs s') = []
            \<and> find (\<lambda>p. p_rid p = rid) (pending_deletes s') = None
            \<and> approve_delete e2 u (rid # args2) s' =
                (None, s'\<lparr>outbox := outbox s' @ [(Chat (uid u), [S ''No pending request.''])]\<rparr>)"
    unfolding Let_def s'_def by blast
qed

lemma approve_printed_id_example:
  "is_superadmin (uid ex_super) ex_state
   \<and> find (\<lambda>p. p_rid p = ''ffffffffffffffffffffffff'') (pending_deletes ex_state) = None
   \<and> approve_delete ex_env ex_super [''ffffffffffffffffffffffff''] ex_state
       = (None, ex_state\<lparr>outbox := [(Chat 1, [S ''No pending request.''])]\<rparr>)
   \<and> find (\<lambda>p. p_rid p = ex_rid) (pending_deletes ex_state)
       = Some \<lparr>p_rid = ex_rid, p_requested_by = 2, p_requested_at = 90\<rparr>
   \<and> ObjectId ex_rid = Inr ex_rid
   \<and> distinct (map r_id (reminders ex_state)) \<and> distinct (map p_rid (pending_deletes ex_state))
   \<and> approve_delete ex_env ex_super [ex_rid] ex_state = (None, ex_approved)
   \<and> approve_delete ex_env ex_super [ex_rid] ex_approved
       = (None, ex_approved\<lparr>outbox := outbox ex_approved @ [(Chat 1, [S ''No pending request.''])]\<rparr>)"
proof -
  note sup = ex_state_facts(1)
  have nf: "find (\<lambda>p. p_rid p = ''ffffffffffffffffffffffff'') (pending_deletes ex_state) = None"
    by (simp add: ex_state_def ex_rid_def)
  have a: "approve_delete ex_env ex_super [''ffffffffffffffffffffffff''] ex_state
       = (None, ex_state\<lparr>outbox := [(Chat 1, [S ''No pending request.''])]\<rparr>)"
    using approve_printed_id [OF sup, THEN conjunct1, THEN mp, OF nf, of ex_env "[]"]
    by (simp add: ex_state_def ex_super_def)
  have h: "find (\<lambda>p. p_rid p = ex_rid) (pending_deletes ex_state)
       = Some \<lparr>p_rid = ex_rid, p_requested_by = 2, p_requested_at = 90\<rparr> \<and> ObjectId ex_rid = Inr ex_rid
        \<and> distinct (map r_id (reminders ex_state)) \<and> distinct (map p_rid (pending_deletes ex_state))"
    using ex_state_facts ObjectId_ex_rid by simp
  have s': "ex_state\<lparr>reminders := filter (\<lambda>r. r_id r \<noteq> ex_rid) (reminders ex_state),
                     jobs := filter (\<lambda>j. \<not> prefix (ex_rid @ ''_'') (job_id j)) (jobs ex_state),
                     pending_deletes := filter (\<lambda>p. p_rid p \<noteq> ex_rid) (pending_deletes ex_state),
                     outbox := outbox ex_state @
                       [(Chat (uid ex_super), [S ''Reminder '', S ex_rid, S '' deleted after approval.'']),
                        (Chat (p_requested_by \<lparr>p_rid = ex_rid, p_requested_by = 2, p_requested_at = 90\<rparr>),
                         [S ''Your deletion request for '', S ex_rid, S '' was approved.''])]\<rparr>
      = ex_approved"
    by (simp add: ex_approved_def ex_state_facts(7) ex_jobs_of_reminder)
       (simp add: ex_state_def ex_super_def)
  note big = approve_printed_id [OF sup, THEN conjunct2, THEN mp, OF h, of ex_env "[]" ex_env "[]",
      unfolded Let_def s']
  have u1: "uid ex_super = 1" by (simp add: ex_super_def)
  from big have b1: "approve_delete ex_env ex_super [ex_rid] ex_state = (None, ex_approved)"
    by (rule conjunct1)
  from big have b2: "approve_delete ex_env ex_super [ex_rid] ex_approved
       = (None, ex_approved\<lparr>outbox := outbox ex_approved @ [(Chat 1, [S ''No pending request.''])]\<rparr>)"
    unfolding u1 by blast
  from sup nf a h b1 b2 show ?thesis by blast
qed

lemma check_spam_frame:
  "admins (snd (check_spam e u s)) = admins s"
  "reminders (snd (check_spam e u s)) = reminders s"
  "pending_deletes (snd (check_spam e u s)) = pending_deletes s"
  "jobs (snd (check_spam e u s)) = jobs s"
  by (simp_all add: check_spam_def rate_limit_def Let_def block_user_def reply_text_def
      send_message_def split: prod.splits bool.splits)



lemma unauthorized_returns:
  assumes "\<not> is_superadmin (uid u) s"
  shows "approve_delete e u args s = (None, snd (check_spam e u s))"
    and "reject_delete e u args s = (None, snd (check_spam e u s))"
  using assms
  by (auto simp add: approve_delete_def reject_delete_def is_superadmin_def check_spam_def
      rate_limit_def Let_def block_user_def reply_text_def send_message_def
      split: prod.splits bool.splits)

lemma ex_admin_facts:
  "is_admin_or_superadmin (uid ex_admin) ex_state"
  "\<not> is_superadmin (uid ex_admin) ex_state"
  "\<not> is_admin_or_superadmin (uid ex_guest) ex_state"
  "\<not> is_blocked (uid ex_guest) ex_state"
  "\<not> is_admin_or_superadmin (uid ex_blocked) ex_state"
  "is_blocked (uid ex_blocked) ex_state"
  by (simp_all add: ex_state_def ex_admin_def ex_guest_def ex_blocked_def is_superadmin_def
      is_admin_or_superadmin_def is_blocked_def)

text \<open>
  C9. In the scenario, the admin (not a superadmin) calls \<open>approve\<close> and \<open>reject\<close>: the
  handlers return with the state as it was and the outbox empty, so nothing is reported
  to the caller. The ordinary user calls \<open>deletereminder\<close> on the existing reminder: the
  abuse guard notes the request, and again no reply is sent.
\<close>

theorem C9_unauthorized_is_silent:
  "is_admin_or_superadmin (uid ex_admin) ex_state
   \<and> \<not> is_superadmin (uid ex_admin) ex_state
   \<and> approve_delete ex_env ex_admin [ex_rid] ex_state = (None, ex_state)
   \<and> reject_delete ex_env ex_admin [ex_rid] ex_state = (None, ex_state)
   \<and> outbox ex_state = []
   \<and> \<not> is_admin_or_superadmin (uid ex_guest) ex_state
   \<and> delete_reminder ex_env ex_guest [ex_rid] ex_state
       = (None, ex_state\<lparr>user_requests := (\<lambda>_. [])(7 := [100])\<rparr>)"
proof -
  have c: "check_spam ex_env ex_admin ex_state = (True, ex_state)"
    by (rule check_spam_operator [OF ex_admin_facts(1)])
  have a: "approve_delete ex_env ex_admin [ex_rid] ex_state = (None, ex_state)"
    using unauthorized_returns(1) [OF ex_admin_facts(2)] c by simp
  have r: "reject_delete ex_env ex_admin [ex_rid] ex_state = (None, ex_state)"
    using unauthorized_returns(2) [OF ex_admin_facts(2)] c by simp
  have g: "check_spam ex_env ex_guest ex_state
       = (True, ex_state\<lparr>user_requests := (\<lambda>_. [])(7 := [100])\<rparr>)"
    using check_spam_nonop [OF ex_admin_facts(3) ex_admin_facts(4), of ex_env]
    by (simp add: Let_def ex_state_def ex_env_def ex_guest_def)
  have d: "delete_reminder ex_env ex_guest [ex_rid] ex_state
       = (None, ex_state\<lparr>user_requests := (\<lambda>_. [])(7 := [100])\<rparr>)"
    by (simp add: delete_reminder_def g delete_reminder_try_def ObjectId_ex_rid)
       (simp add: ex_state_def ex_guest_def is_superadmin_def is_admin_or_superadmin_def)
  have o: "outbox ex_state = []" by (simp add: ex_state_def)
  from ex_admin_facts(1,2,3) a r d o show ?thesis by blast
qed

lemma ObjectId_ex_rid_upper: "ObjectId ex_rid_upper = Inr ex_rid"
  by (simp add: ObjectId_def ex_rid_upper_def ex_rid_def is_hex_def lower_hex_def)

lemma upper_not_lower: "ex_rid_upper \<noteq> ex_rid"
  by (simp add: ex_rid_upper_def ex_rid_def)

lemma upper_keys_no_job:
  "filter (\<lambda>j. \<not> prefix (ex_rid_upper @ ''_'') (job_id j)) ex_jobs = ex_jobs"
  by (simp add: ex_jobs_def ping_self_job_def ex_rid_def ex_rid_upper_def)

lemma upper_request:
  "delete_reminder ex_env ex_admin [ex_rid_upper] ex_state = (None, ex_requested)"
proof -
  have c: "check_spam ex_env ex_admin ex_state = (True, ex_state)"
    by (rule check_spam_operator [OF ex_admin_facts(1)])
  have t: "delete_reminder_try ex_env ex_admin [ex_rid_upper] ex_state
      = (None, run_steps (request_steps ex_env ex_rid_upper (uid ex_admin) ex_admin) ex_state)"
    using ex_admin_facts(1,2) ex_state_facts(2)
    by (auto simp add: delete_reminder_try_def ObjectId_ex_rid_upper Let_def)
  have r: "run_steps (request_steps ex_env ex_rid_upper (uid ex_admin) ex_admin) ex_state
      = ex_requested"
    using upper_not_lower
    by (simp add: request_steps_def run_steps_simps pending_upsert_def upsert_one_def
        reply_text_def send_message_def ex_requested_def ex_state_def ex_admin_def ex_env_def)
  show ?thesis by (simp add: delete_reminder_def c t r)
qed

lemma ex_requested_facts:
  "is_superadmin (uid ex_super) ex_requested"
  "find (\<lambda>p. p_rid p = ex_rid_upper) (pending_deletes ex_requested)
     = Some \<lparr>p_rid = ex_rid_upper, p_requested_by = 2, p_requested_at = 100\<rparr>"
  "jobs ex_requested = ex_jobs"
  using upper_not_lower
  by (auto simp add: ex_requested_def ex_state_def ex_super_def is_superadmin_def)

text \<open>
  C5. \<open>approve\<close> of an id typed in upper case. In the scenario the admin asks for the
  deletion of the reminder under the upper-case spelling, which \<open>delete_reminder\<close>
  accepts and stores in the pending request. The superadmin approves that request: the
  reminder and the pending request are deleted, the caller and the requester are told,
  and all five timers of the reminder stay registered, since the timers are looked up
  under the spelling as typed.
\<close>

theorem C5_upper_case_id_keeps_timers:
  "ObjectId ex_rid_upper = Inr ex_rid
   \<and> delete_reminder ex_env ex_admin [ex_rid_upper] ex_state = (None, ex_requested)
   \<and> find (\<lambda>p. p_rid p = ex_rid_upper) (pending_deletes ex_requested)
       = Some \<lparr>p_rid = ex_rid_upper, p_requested_by = 2, p_requested_at = 100\<rparr>
   \<and> approve_delete ex_env ex_super [ex_rid_upper] ex_requested =
       (None, ex_requested\<lparr>reminders := [],
          pending_deletes := [\<lparr>p_rid = ex_rid, p_requested_by = 2, p_requested_at = 90\<rparr>],
          outbox := outbox ex_requested @
            [(Chat 1, [S ''Reminder '', S ex_rid_upper, S '' deleted after approval.'']),
             (Chat 2, [S ''Your deletion request for '', S ex_rid_upper, S '' was approved.''])]\<rparr>)
   \<and> jobs (snd (approve_delete ex_env ex_super [ex_rid_upper] ex_requested)) = ex_jobs
   \<and> map job_id (filter (\<lambda>j. prefix (ex_rid @ ''_'') (job_id j)) ex_jobs)
       = [ex_rid @ ''_0'', ex_rid @ ''_1'', ex_rid @ ''_2'', ex_rid @ ''_3'', ex_rid @ ''_4'']"
proof -
  have a: "approve_delete ex_env ex_super [ex_rid_upper] ex_requested =
       (None, run_steps (approve_steps ex_super ex_rid_upper ex_rid 2) ex_requested)"
    using approve_found [OF ex_requested_facts(1) ex_requested_facts(2) ObjectId_ex_rid_upper]
    by simp
  have r: "run_steps (approve_steps ex_super ex_rid_upper ex_rid 2) ex_requested =
       ex_requested\<lparr>reminders := [],
          pending_deletes := [\<lparr>p_rid = ex_rid, p_requested_by = 2, p_requested_at = 90\<rparr>],
          outbox := outbox ex_requested @
            [(Chat 1, [S ''Reminder '', S ex_rid_upper, S '' deleted after approval.'']),
             (Chat 2, [S ''Your deletion request for '', S ex_rid_upper, S '' was approved.''])]\<rparr>"
    using upper_not_lower
    by (simp add: approve_steps_result ex_requested_facts(3) upper_keys_no_job)
       (simp add: ex_requested_def ex_state_def ex_super_def)
  have j: "jobs (snd (approve_delete ex_env ex_super [ex_rid_upper] ex_requested)) = ex_jobs"
    by (simp add: a r ex_requested_facts(3))
  from ObjectId_ex_rid_upper upper_request ex_requested_facts(2) a r j ex_jobs_of_reminder(1)
  show ?thesis by simp
qed

section \<open>Properties of the role store\<close>

lemma send_frame [simp]:
  "admins (send_message c t s) = admins s"
  "reminders (send_message c t s) = reminders s"
  "jobs (send_message c t s) = jobs s"
  "blocked (send_message c t s) = blocked s"
  "pending_deletes (send_message c t s) = pending_deletes s"
  "user_requests (send_message c t s) = user_requests s"
  "admins (reply_text u t s) = admins s"
  "reminders (reply_text u t s) = reminders s"
  "jobs (reply_text u t s) = jobs s"
  "blocked (reply_text u t s) = blocked s"
  "pending_deletes (reply_text u t s) = pending_deletes s"
  "user_requests (reply_text u t s) = user_requests s"
  by (simp_all add: send_message_def reply_text_def)

lemma schedule_frame:
  "admins (snd (schedule_reminder_jobs e rid t m s)) = admins s"
  "reminders (snd (schedule_reminder_jobs e rid t m s)) = reminders s"
  by (simp_all add: schedule_reminder_jobs_def split: prod.splits)

lemma check_spam_admins: "check_spam e u s = (ok, s1) \<Longrightarrow> admins s1 = admins s"
  using check_spam_frame(1) [of e u s] by simp

lemma schedule_admins:
  "schedule_reminder_jobs e rid t m s = (r, s1) \<Longrightarrow> admins s1 = admins s"
  using schedule_frame(1) [of e rid t m s] by simp

lemma remind_try_admins: "admins (snd (remind_try strptime e u args s)) = admins s"
  by (auto simp add: remind_try_def Let_def run_steps_simps dest!: schedule_admins
      split: sum.splits prod.splits option.splits)

lemma filter_delete_one:
  "(\<And>x. P x \<Longrightarrow> \<not> Q x) \<Longrightarrow> filter Q (delete_one P xs) = filter Q xs"
  by (induction xs) auto

lemma filter_superadmin_delete_admin:
  "filter (\<lambda>a. a_role a = Superadmin)
     (delete_one (\<lambda>a. a_user_id a = k \<and> a_role a = Admin) xs)
   = filter (\<lambda>a. a_role a = Superadmin) xs"
  by (rule filter_delete_one) simp

lemma handler_admins:
  "admins (snd (start e u args s)) = admins s"
  "admins (snd (ping e u args s)) = admins s"
  "admins (snd (list_admins e u args s)) = admins s"
  "admins (snd (unblock_cmd e u args s)) = admins s"
  "admins (snd (list_blocked e u args s)) = admins s"
  "admins (snd (broadcast e u args s)) = admins s"
  "admins (snd (list_reminders e u args s)) = admins s"
  "admins (snd (approve_delete e u args s)) = admins s"
  "admins (snd (reject_delete e u args s)) = admins s"
  by (auto simp add: start_def ping_def list_admins_def unblock_cmd_def list_blocked_def
      broadcast_def list_reminders_def approve_delete_def reject_delete_def Let_def
      unblock_user_def run_steps_simps approve_steps_def reject_steps_def
      reminders_delete_one_def remove_reminder_jobs_def pending_delete_one_def
      dest: check_spam_admins
      split: prod.splits bool.splits sum.splits list.splits option.splits)

lemma remind_admins: "admins (snd (remind strptime e u args s)) = admins s"
proof (cases "check_spam e u s")
  case (Pair ok s1)
  then have a: "admins s1 = admins s" by (rule check_spam_admins)
  show ?thesis
  proof (cases "remind_try strptime e u args s1")
    case (Pair r s2)
    with remind_try_admins [of strptime e u args s1] have "admins s2 = admins s1" by simp
    with Pair \<open>check_spam e u s = (ok, s1)\<close> a show ?thesis
      by (cases ok; cases r) (simp_all add: remind_def)
  qed
qed

lemma delete_reminder_admins: "admins (snd (delete_reminder e u args s)) = admins s"
proof (cases "check_spam e u s")
  case (Pair ok s1)
  then have a: "admins s1 = admins s" by (rule check_spam_admins)
  have t: "admins (snd (delete_reminder_try e u args s1)) = admins s1"
    by (simp add: delete_reminder_try_def Let_def run_steps_simps delete_steps_def
        request_steps_def reminders_delete_one_def remove_reminder_jobs_def pending_upsert_def
        split: list.splits sum.splits)
  show ?thesis
  proof (cases "delete_reminder_try e u args s1")
    case (Pair r s2)
    with t have "admins s2 = admins s1" by simp
    with Pair \<open>check_spam e u s = (ok, s1)\<close> a show ?thesis
      by (cases ok; cases r) (simp_all add: delete_reminder_def)
  qed
qed

lemma add_admin_superadmins:
  "filter (\<lambda>a. a_role a = Superadmin) (admins (snd (add_admin e u args s)))
     = filter (\<lambda>a. a_role a = Superadmin) (admins s)"
  by (auto simp add: add_admin_def dest: check_spam_admins
      split: prod.splits bool.splits sum.splits list.splits)

lemma remove_admin_superadmins:
  "filter (\<lambda>a. a_role a = Superadmin) (admins (snd (remove_admin e u args s)))
     = filter (\<lambda>a. a_role a = Superadmin) (admins s)"
  by (auto simp add: remove_admin_def Let_def filter_superadmin_delete_admin dest: check_spam_admins
      split: prod.splits bool.splits sum.splits list.splits)

lemma handle_superadmins:
  "filter (\<lambda>a. a_role a = Superadmin) (admins (snd (handle strptime c e u args s)))
     = filter (\<lambda>a. a_role a = Superadmin) (admins s)"
  by (cases c)
     (simp_all add: handler_admins remind_admins delete_reminder_admins
        add_admin_superadmins remove_admin_superadmins)


lemma reload_loop_admins: "admins (snd (reload_loop e rs s)) = admins s"
proof (induction rs arbitrary: s)
  case Nil
  then show ?case by simp
next
  case (Cons r rs)
  show ?case
  proof (cases "schedule_reminder_jobs e (r_id r) (Naive (r_time r)) (r_message r) s")
    case (Pair err s1)
    then have "admins s1 = admins s" by (rule schedule_admins)
    with Pair Cons.IH [of s1] show ?thesis by (cases err) simp_all
  qed
qed

lemma main_admins:
  "admins (snd (main e db)) =
     (if find (\<lambda>a. a_role a = Superadmin) (admins db) = None
      then admins db @ [\<lparr>a_user_id = superadmin_id e, a_role = Superadmin\<rparr>]
      else admins db)"
  by (simp add: main_def reload_reminders_def reload_loop_admins startup_def Let_def)

lemma find_None_filter: "(find P xs = None) = (filter P xs = [])"
  by (auto simp add: find_None_iff filter_empty_conv)

lemma main_superadmins:
  "filter (\<lambda>a. a_role a = Superadmin) (admins (snd (main e db))) =
     (if filter (\<lambda>a. a_role a = Superadmin) (admins db) = []
      then [\<lparr>a_user_id = superadmin_id e, a_role = Superadmin\<rparr>]
      else filter (\<lambda>a. a_role a = Superadmin) (admins db))"
  by (simp add: main_admins find_None_filter)

lemma step_superadmins:
  "filter (\<lambda>a. a_role a = Superadmin) (admins s) \<noteq> [] \<Longrightarrow>
   filter (\<lambda>a. a_role a = Superadmin) (admins (step strptime ev s))
     = filter (\<lambda>a. a_role a = Superadmin) (admins s)"
  by (cases ev) (simp_all add: handle_superadmins main_superadmins)

lemma run_superadmins:
  "filter (\<lambda>a. a_role a = Superadmin) (admins s) \<noteq> [] \<Longrightarrow>
   filter (\<lambda>a. a_role a = Superadmin) (admins (run strptime evs s))
     = filter (\<lambda>a. a_role a = Superadmin) (admins s)"
proof (induction evs arbitrary: s)
  case Nil
  then show ?case by simp
next
  case (Cons ev evs)
  from Cons.prems have eq: "filter (\<lambda>a. a_role a = Superadmin) (admins (step strptime ev s))
     = filter (\<lambda>a. a_role a = Superadmin) (admins s)"
    by (rule step_superadmins)
  with Cons.prems have "filter (\<lambda>a. a_role a = Superadmin) (admins (step strptime ev s)) \<noteq> []"
    by simp
  from Cons.IH [OF this] eq show ?case by simp
qed

text \<open>
  C7. Start-up inserts the superadmin when the admins collection holds no superadmin
  entry, and no command and no restart afterwards changes the superadmin entries;
  \<open>remove_admin\<close> in particular deletes only an entry with the role admin. So when the
  collection held at most one superadmin entry before start-up (none, on a fresh
  database), it holds exactly one after start-up and after every sequence of commands
  and restarts.
\<close>

theorem C7_one_superadmin:
  assumes "length (filter (\<lambda>a. a_role a = Superadmin) (admins db)) \<le> 1"
  shows "length (filter (\<lambda>a. a_role a = Superadmin)
            (admins (run strptime evs (snd (main e db))))) = 1
    \<and> filter (\<lambda>a. a_role a = Superadmin) (admins (run strptime evs (snd (main e db))))
        = filter (\<lambda>a. a_role a = Superadmin) (admins (snd (main e db)))
    \<and> (find (\<lambda>a. a_role a = Superadmin) (admins db) = None \<longrightarrow>
         filter (\<lambda>a. a_role a = Superadmin) (admins (snd (main e db)))
           = [\<lparr>a_user_id = superadmin_id e, a_role = Superadmin\<rparr>])
    \<and> filter (\<lambda>a. a_role a = Superadmin) (admins (snd (remove_admin e' u args s)))
        = filter (\<lambda>a. a_role a = Superadmin) (admins s)"
proof -
  have ne: "filter (\<lambda>a. a_role a = Superadmin) (admins (snd (main e db))) \<noteq> []"
    by (simp add: main_superadmins)
  have one: "length (filter (\<lambda>a. a_role a = Superadmin) (admins (snd (main e db)))) = 1"
    using assms
    by (cases "filter (\<lambda>a. a_role a = Superadmin) (admins db)")
       (simp_all add: main_superadmins)
  note run = run_superadmins [OF ne, of strptime evs]
  have seed: "find (\<lambda>a. a_role a = Superadmin) (admins db) = None \<longrightarrow>
         filter (\<lambda>a. a_role a = Superadmin) (admins (snd (main e db)))
           = [\<lparr>a_user_id = superadmin_id e, a_role = Superadmin\<rparr>]"
    by (simp add: main_superadmins find_None_filter)
  from one run seed remove_admin_superadmins [of e' u args s] show ?thesis by simp
qed

theorem C7_one_superadmin_witness:
  "length (filter (\<lambda>a. a_role a = Superadmin) (admins empty_db)) \<le> 1
   \<and> find (\<lambda>a. a_role a = Superadmin) (admins empty_db) = None
   \<and> filter (\<lambda>a. a_role a = Superadmin)
        (admins (run (\<lambda>_. Inl ValueError)
           [Command AddAdmin ex_env ex_super [''2''],
            Command RemoveAdmin ex_env ex_super [''1''],
            Restart (ex_env\<lparr>superadmin_id := 5\<rparr>),
            Command RemoveAdmin ex_env ex_super [''2'']]
           (snd (main ex_env empty_db))))
       = [\<lparr>a_user_id = 1, a_role = Superadmin\<rparr>]"
proof -
  have a: "length (filter (\<lambda>a. a_role a = Superadmin) (admins empty_db)) \<le> 1"
    and n: "find (\<lambda>a. a_role a = Superadmin) (admins empty_db) = None"
    by (simp_all add: empty_db_def)
  note th = C7_one_superadmin [OF a, of "\<lambda>_. Inl ValueError"
      "[Command AddAdmin ex_env ex_super [''2''],
            Command RemoveAdmin ex_env ex_super [''1''],
            Restart (ex_env\<lparr>superadmin_id := 5\<rparr>),
            Command RemoveAdmin ex_env ex_super [''2'']]" ex_env]
  from th have r: "filter (\<lambda>a. a_role a = Superadmin)
        (admins (run (\<lambda>_. Inl ValueError)
           [Command AddAdmin ex_env ex_super [''2''],
            Command RemoveAdmin ex_env ex_super [''1''],
            Restart (ex_env\<lparr>superadmin_id := 5\<rparr>),
            Command RemoveAdmin ex_env ex_super [''2'']]
           (snd (main ex_env empty_db))))
      = filter (\<lambda>a. a_role a = Superadmin) (admins (snd (main ex_env empty_db)))"
    by blast
  from th n have s: "filter (\<lambda>a. a_role a = Superadmin) (admins (snd (main ex_env empty_db)))
      = [\<lparr>a_user_id = superadmin_id ex_env, a_role = Superadmin\<rparr>]"
    by blast
  have i: "superadmin_id ex_env = 1" by (simp add: ex_env_def)
  from a n r s i show ?thesis by simp
qed

section \<open>Properties of the command handlers\<close>

lemma check_spam_roles:
  assumes "check_spam e u s = (ok, s1)"
  shows "is_superadmin x s1 = is_superadmin x s"
    and "is_admin_or_superadmin x s1 = is_admin_or_superadmin x s"
  using check_spam_admins [OF assms]
  by (simp_all add: is_superadmin_def is_admin_or_superadmin_def)

lemma not_operator_not_superadmin:
  "\<not> is_admin_or_superadmin x s \<Longrightarrow> \<not> is_superadmin x s"
  using superadmin_is_operator by blast

lemma outbox_ext:
  "\<exists>out. s1 = s1\<lparr>outbox := outbox s1 @ out\<rparr>"
  "\<exists>out. reply_text u t s1 = s1\<lparr>outbox := outbox s1 @ out\<rparr>"
proof -
  show "\<exists>out. s1 = s1\<lparr>outbox := outbox s1 @ out\<rparr>"
    by (rule exI [of _ "[]"]) simp
  show "\<exists>out. reply_text u t s1 = s1\<lparr>outbox := outbox s1 @ out\<rparr>"
    by (rule exI [of _ "[(Chat (uid u), t)]"]) (simp add: reply_text_def send_message_def)
qed

lemma denied_handler:
  assumes "c \<noteq> Ping" and "check_spam e u s = (False, s1)"
  shows "handle strptime c e u args s = (None, s1)"
  using assms
  by (cases c)
     (simp_all add: start_def remind_def list_reminders_def delete_reminder_def
        approve_delete_def reject_delete_def add_admin_def remove_admin_def list_admins_def
        broadcast_def unblock_cmd_def list_blocked_def)

lemma delete_reminder_try_nonop:
  assumes "\<not> is_admin_or_superadmin (uid u) s1"
  shows "\<exists>out. snd (case delete_reminder_try e u args s1 of
             (Some err, s2) \<Rightarrow>
               (None :: error option, reply_text u [S ''Usage: /deletereminder <id>\<newline>Error: '', E err] s2)
           | (None, s2) \<Rightarrow> (None, s2)) = s1\<lparr>outbox := outbox s1 @ out\<rparr>"
  using assms not_operator_not_superadmin [OF assms]
  by (simp add: delete_reminder_try_def outbox_ext split: list.splits sum.splits)

lemma nonop_handler:
  assumes nonop: "\<not> is_admin_or_superadmin (uid u) s" and "c \<noteq> Ping"
    and cs: "check_spam e u s = (True, s1)"
  shows "\<exists>out. snd (handle strptime c e u args s) = s1\<lparr>outbox := outbox s1 @ out\<rparr>"
proof -
  from nonop check_spam_roles [OF cs] have n1: "\<not> is_admin_or_superadmin (uid u) s1"
    by simp
  then have n2: "\<not> is_superadmin (uid u) s1" by (rule not_operator_not_superadmin)
  from \<open>c \<noteq> Ping\<close> show ?thesis
    using n1 n2 cs delete_reminder_try_nonop [OF n1, of e args]
    by (cases c)
       (simp_all add: start_def remind_def list_reminders_def delete_reminder_def
          approve_delete_def reject_delete_def add_admin_def remove_admin_def list_admins_def
          broadcast_def unblock_cmd_def list_blocked_def outbox_ext)
qed

text \<open>
  Every command other than \<open>ping\<close> runs the abuse guard first: when the guard denies
  the caller, the handler stops there, with the state the guard left; and for a caller
  without an admins entry the handler changes, beyond what the guard did, nothing but
  the outbox. \<open>ping\<close> checks no role, changes no store and replies \<open>pong\<close>.
\<close>

lemma guard_first_except_ping:
  "(c \<noteq> Ping \<and> \<not> fst (check_spam e u s) \<longrightarrow>
      handle strptime c e u args s = (None, snd (check_spam e u s)))
   \<and> (c \<noteq> Ping \<and> \<not> is_admin_or_superadmin (uid u) s \<longrightarrow>
      (\<exists>out. snd (handle strptime c e u args s)
         = (snd (check_spam e u s))\<lparr>outbox := outbox (snd (check_spam e u s)) @ out\<rparr>))
   \<and> handle strptime Ping e u args s = (None, s\<lparr>outbox := outbox s @ [(Chat (uid u), [S ''pong''])]\<rparr>)"
proof (intro conjI impI)
  assume a: "c \<noteq> Ping \<and> \<not> fst (check_spam e u s)"
  obtain ok s1 where cs: "check_spam e u s = (ok, s1)" by (cases "check_spam e u s")
  with a have "check_spam e u s = (False, s1)" by simp
  with a show "handle strptime c e u args s = (None, snd (check_spam e u s))"
    by (simp add: denied_handler)
next
  assume a: "c \<noteq> Ping \<and> \<not> is_admin_or_superadmin (uid u) s"
  obtain ok s1 where cs: "check_spam e u s = (ok, s1)" by (cases "check_spam e u s")
  show "\<exists>out. snd (handle strptime c e u args s)
         = (snd (check_spam e u s))\<lparr>outbox := outbox (snd (check_spam e u s)) @ out\<rparr>"
  proof (cases ok)
    case True
    with cs a nonop_handler [of u s c e s1 strptime args] show ?thesis by simp
  next
    case False
    with cs a denied_handler [of c e u s s1 strptime args] show ?thesis
      by (simp add: outbox_ext)
  qed
next
  show "handle strptime Ping e u args s = (None, s\<lparr>outbox := outbox s @ [(Chat (uid u), [S ''pong''])]\<rparr>)"
    by (simp add: ping_def reply_text_def send_message_def)
qed

lemma check_spam_blocked:
  "\<not> is_admin_or_superadmin (uid u) s \<Longrightarrow> is_blocked (uid u) s \<Longrightarrow>
   check_spam e u s = (False, reply_text u msg_blocked s)"
  by (simp add: check_spam_def)

text \<open>
  C8. \<open>ping\<close> does not run the abuse guard. In the scenario the blocked user sends
  \<open>ping\<close> and is answered \<open>pong\<close>, where the guard would have denied the call with
  the block notice; the ordinary user sends \<open>ping\<close> and the guard does not note the
  request.
\<close>

theorem C8_ping_skips_guard:
  "\<not> is_admin_or_superadmin (uid ex_blocked) ex_state
   \<and> check_spam ex_env ex_blocked ex_state
       = (False, ex_state\<lparr>outbox := [(Chat 9, msg_blocked)]\<rparr>)
   \<and> handle (\<lambda>_. Inl ValueError) Ping ex_env ex_blocked [] ex_state
       = (None, ex_state\<lparr>outbox := [(Chat 9, [S ''pong''])]\<rparr>)
   \<and> handle (\<lambda>_. Inl ValueError) Ping ex_env ex_blocked [] ex_state
       \<noteq> (None, snd (check_spam ex_env ex_blocked ex_state))
   \<and> \<not> is_admin_or_superadmin (uid ex_guest) ex_state
   \<and> user_requests (snd (check_spam ex_env ex_guest ex_state)) 7 = [100]
   \<and> user_requests (snd (handle (\<lambda>_. Inl ValueError) Ping ex_env ex_guest [] ex_state)) 7 = []"
proof -
  have cs: "check_spam ex_env ex_blocked ex_state = (False, ex_state\<lparr>outbox := [(Chat 9, msg_blocked)]\<rparr>)"
    using check_spam_blocked [OF ex_admin_facts(5) ex_admin_facts(6), of ex_env]
    by (simp add: reply_text_def send_message_def ex_state_def ex_blocked_def)
  have p: "handle (\<lambda>_. Inl ValueError) Ping ex_env ex_blocked [] ex_state
       = (None, ex_state\<lparr>outbox := [(Chat 9, [S ''pong''])]\<rparr>)"
    by (simp add: ping_def reply_text_def send_message_def ex_state_def ex_blocked_def)
  have ne: "handle (\<lambda>_. Inl ValueError) Ping ex_env ex_blocked [] ex_state
       \<noteq> (None, snd (check_spam ex_env ex_blocked ex_state))"
    unfolding p cs by (simp add: ex_state_def msg_blocked_def)
  have g: "check_spam ex_env ex_guest ex_state
       = (True, ex_state\<lparr>user_requests := (\<lambda>_. [])(7 := [100])\<rparr>)"
    using check_spam_nonop [OF ex_admin_facts(3) ex_admin_facts(4), of ex_env]
    by (simp add: Let_def ex_state_def ex_env_def ex_guest_def)
  have g1: "user_requests (snd (check_spam ex_env ex_guest ex_state)) 7 = [100]"
    by (simp add: g)
  have g2: "user_requests (snd (handle (\<lambda>_. Inl ValueError) Ping ex_env ex_guest [] ex_state)) 7 = []"
    by (simp add: ping_def ex_state_def)
  from ex_admin_facts(5) cs p ne ex_admin_facts(3) g1 g2 show ?thesis by blast
qed

lemma check_spam_denied_reply:
  assumes "\<not> is_admin_or_superadmin (uid u) s" and "\<not> fst (check_spam e u s)"
  shows "\<exists>s0. snd (check_spam e u s) = reply_text u msg_blocked s0
      \<or> snd (check_spam e u s) = reply_text u msg_spam s0"
proof (cases "is_blocked (uid u) s")
  case True
  with assms(1) have "snd (check_spam e u s) = reply_text u msg_blocked s"
    by (simp add: check_spam_def)
  then show ?thesis by blast
next
  case False
  obtain ok s1 where r: "rate_limit (time_time e) (uid u) s = (ok, s1)"
    by (cases "rate_limit (time_time e) (uid u) s")
  with assms False have "snd (check_spam e u s) = reply_text u msg_spam s1"
    by (cases ok) (simp_all add: check_spam_def)
  then show ?thesis by blast
qed

text \<open>
  C10. For a caller without an admins entry, \<open>remind\<close> inserts no reminder and
  registers no timer. When the abuse guard admits the call, the reply is
  \<open>You are not an admin.\<close>; when the guard denies it, the handler stops with the
  guard's own notice (blocked, or blocked for spamming), and for a caller on the block
  list that notice is the only effect.
\<close>

theorem C10_remind_operators_only:
  assumes "\<not> is_admin_or_superadmin (uid u) s"
  shows "reminders (snd (remind strptime e u args s)) = reminders s
    \<and> jobs (snd (remind strptime e u args s)) = jobs s
    \<and> (fst (check_spam e u s) \<longrightarrow>
         remind strptime e u args s
           = (None, reply_text u [S ''You are not an admin.''] (snd (check_spam e u s))))
    \<and> (\<not> fst (check_spam e u s) \<longrightarrow>
         remind strptime e u args s = (None, snd (check_spam e u s))
         \<and> (\<exists>s0. snd (check_spam e u s) = reply_text u msg_blocked s0
               \<or> snd (check_spam e u s) = reply_text u msg_spam s0))
    \<and> (is_blocked (uid u) s \<longrightarrow> remind strptime e u args s = (None, reply_text u msg_blocked s))"
proof -
  obtain ok s1 where cs: "check_spam e u s = (ok, s1)" by (cases "check_spam e u s")
  from assms check_spam_roles(2) [OF cs] have n1: "\<not> is_admin_or_superadmin (uid u) s1"
    by simp
  have r: "remind strptime e u args s =
      (if ok then (None, reply_text u [S ''You are not an admin.''] s1) else (None, s1))"
    using n1 by (simp add: remind_def cs)
  from check_spam_frame(2,4) [of e u s] cs have f: "reminders s1 = reminders s" "jobs s1 = jobs s"
    by simp_all
  have 1: "reminders (snd (remind strptime e u args s)) = reminders s"
    and 2: "jobs (snd (remind strptime e u args s)) = jobs s"
    using f by (simp_all add: r)
  have 3: "fst (check_spam e u s) \<longrightarrow>
         remind strptime e u args s
           = (None, reply_text u [S ''You are not an admin.''] (snd (check_spam e u s)))"
    by (simp add: r cs)
  have 4: "\<not> fst (check_spam e u s) \<longrightarrow>
         remind strptime e u args s = (None, snd (check_spam e u s))
         \<and> (\<exists>s0. snd (check_spam e u s) = reply_text u msg_blocked s0
               \<or> snd (check_spam e u s) = reply_text u msg_spam s0)"
    using check_spam_denied_reply [OF assms, of e] by (simp add: r cs)
  have 5: "is_blocked (uid u) s \<longrightarrow> remind strptime e u args s = (None, reply_text u msg_blocked s)"
    using check_spam_blocked [OF assms, of e] cs r by auto
  from 1 2 3 4 5 show ?thesis by blast
qed

theorem C10_remind_operators_only_witness:
  "\<not> is_admin_or_superadmin (uid ex_guest) ex_state
   \<and> fst (check_spam ex_env ex_guest ex_state)
   \<and> remind (\<lambda>_. Inr 0) ex_env ex_guest [''2030-01-10'', ''14:00'', ''Submit'', ''resume''] ex_state
       = (None, ex_state\<lparr>user_requests := (\<lambda>_. [])(7 := [100]),
                          outbox := [(Chat 7, [S ''You are not an admin.''])]\<rparr>)
   \<and> reminders (snd (remind (\<lambda>_. Inr 0) ex_env ex_guest
        [''2030-01-10'', ''14:00'', ''Submit'', ''resume''] ex_state)) = reminders ex_state
   \<and> jobs (snd (remind (\<lambda>_. Inr 0) ex_env ex_guest
        [''2030-01-10'', ''14:00'', ''Submit'', ''resume''] ex_state)) = ex_jobs
   \<and> \<not> is_admin_or_superadmin (uid ex_blocked) ex_state
   \<and> is_blocked (uid ex_blocked) ex_state
   \<and> \<not> fst (check_spam ex_env ex_blocked ex_state)
   \<and> remind (\<lambda>_. Inr 0) ex_env ex_blocked [''2030-01-10'', ''14:00'', ''Submit'', ''resume''] ex_state
       = (None, ex_state\<lparr>outbox := [(Chat 9, msg_blocked)]\<rparr>)"
proof -
  note g = C10_remind_operators_only [OF ex_admin_facts(3), of "\<lambda>_. Inr 0" ex_env
      "[''2030-01-10'', ''14:00'', ''Submit'', ''resume'']"]
  note b = C10_remind_operators_only [OF ex_admin_facts(5), of "\<lambda>_. Inr 0" ex_env
      "[''2030-01-10'', ''14:00'', ''Submit'', ''resume'']"]
  have cg: "check_spam ex_env ex_guest ex_state
       = (True, ex_state\<lparr>user_requests := (\<lambda>_. [])(7 := [100])\<rparr>)"
    using check_spam_nonop [OF ex_admin_facts(3) ex_admin_facts(4), of ex_env]
    by (simp add: Let_def ex_state_def ex_env_def ex_guest_def)
  have cb: "check_spam ex_env ex_blocked ex_state = (False, ex_state\<lparr>outbox := [(Chat 9, msg_blocked)]\<rparr>)"
    using check_spam_blocked [OF ex_admin_facts(5) ex_admin_facts(6), of ex_env]
    by (simp add: reply_text_def send_message_def ex_state_def ex_blocked_def)
  have fg: "fst (check_spam ex_env ex_guest ex_state)" by (simp add: cg)
  have fb: "\<not> fst (check_spam ex_env ex_blocked ex_state)" by (simp add: cb)
  from g fg have g3: "remind (\<lambda>_. Inr 0) ex_env ex_guest
        [''2030-01-10'', ''14:00'', ''Submit'', ''resume''] ex_state
      = (None, reply_text ex_guest [S ''You are not an admin.''] (snd (check_spam ex_env ex_guest ex_state)))"
    by blast
  have g3': "remind (\<lambda>_. Inr 0) ex_env ex_guest [''2030-01-10'', ''14:00'', ''Submit'', ''resume''] ex_state
       = (None, ex_state\<lparr>user_requests := (\<lambda>_. [])(7 := [100]),
                          outbox := [(Chat 7, [S ''You are not an admin.''])]\<rparr>)"
    unfolding g3 cg by (simp add: reply_text_def send_message_def ex_state_def ex_guest_def)
  from g have g1: "reminders (snd (remind (\<lambda>_. Inr 0) ex_env ex_guest
        [''2030-01-10'', ''14:00'', ''Submit'', ''resume''] ex_state)) = reminders ex_state"
    by blast
  from g have g2: "jobs (snd (remind (\<lambda>_. Inr 0) ex_env ex_guest
        [''2030-01-10'', ''14:00'', ''Submit'', ''resume''] ex_state)) = ex_jobs"
    unfolding ex_state_facts(7) by blast
  from b fb have b4: "remind (\<lambda>_. Inr 0) ex_env ex_blocked
        [''2030-01-10'', ''14:00'', ''Submit'', ''resume''] ex_state
      = (None, snd (check_spam ex_env ex_blocked ex_state))"
    by blast
  have b4': "remind (\<lambda>_. Inr 0) ex_env ex_blocked [''2030-01-10'', ''14:00'', ''Submit'', ''resume''] ex_state
       = (None, ex_state\<lparr>outbox := [(Chat 9, msg_blocked)]\<rparr>)"
    unfolding b4 cb by simp
  from ex_admin_facts(3) fg g3' g1 g2 ex_admin_facts(5) ex_admin_facts(6) fb b4' show ?thesis
    by blast
qed

text \<open>
  In the scenario the blocked user, who has no admins entry, sends \<open>remind\<close>: the reply
  is the block notice, not the authorization error.
\<close>

theorem C10_blocked_reply_counterexample:
  "\<not> is_admin_or_superadmin (uid ex_blocked) ex_state
   \<and> remind (\<lambda>_. Inr 0) ex_env ex_blocked [''2030-01-10'', ''14:00'', ''Submit'', ''resume''] ex_state
       = (None, ex_state\<lparr>outbox := [(Chat 9, msg_blocked)]\<rparr>)
   \<and> msg_blocked \<noteq> [S ''You are not an admin.'']"
proof -
  have cb: "check_spam ex_env ex_blocked ex_state = (False, ex_state\<lparr>outbox := [(Chat 9, msg_blocked)]\<rparr>)"
    using check_spam_blocked [OF ex_admin_facts(5) ex_admin_facts(6), of ex_env]
    by (simp add: reply_text_def send_message_def ex_state_def ex_blocked_def)
  have r: "remind (\<lambda>_. Inr 0) ex_env ex_blocked [''2030-01-10'', ''14:00'', ''Submit'', ''resume''] ex_state
       = (None, ex_state\<lparr>outbox := [(Chat 9, msg_blocked)]\<rparr>)"
    by (simp add: remind_def cb)
  have n: "msg_blocked \<noteq> [S ''You are not an admin.'']" by (simp add: msg_blocked_def)
  from ex_admin_facts(5) r n show ?thesis by blast
qed

text \<open>
  What a superadmin's \<open>remind\<close> does in the scenario: the reminder is inserted, the
  comparison of its offset-aware time with the offset-naive \<open>now\<close> raises, no timer is
  registered and the caller gets the usage text.
\<close>

lemma remind_superadmin_example:
  "remind (\<lambda>_. Inr (hours 200)) ex_env ex_super [''2030-01-10'', ''14:00'', ''Viva''] ex_state
     = (None, ex_state\<lparr>reminders := reminders ex_state @
          [\<lparr>r_id = ''65a1b2c3d4e5f60718293a4c'', r_time = hours 200 - IST_OFFSET,
            r_message = ''Viva'', r_created_by = 1, r_creator_name = ''@boss'',
            r_created_at = 0\<rparr>],
          outbox := [(Chat 1, [S ''Usage: /remind YYYY-MM-DD HH:MM message\<newline>Error: '',
                                E TypeError])]\<rparr>)"
  by (simp add: remind_def check_spam_superadmin ex_state_facts(1)
        superadmin_is_operator [OF ex_state_facts(1)] remind_try_def schedule_aware Let_def)
     (simp add: ex_state_def ex_env_def ex_super_def ex_rid_def format_user_def reply_text_def
        send_message_def)

end
